theory Spec2Isabelle
  imports Main
begin

section \<open>The project state of gpt-subtrans (PySubtitle/SubtitleProject.py)\<close>

text \<open>
  The class \<^verbatim>\<open>SubtitleProject\<close> is embedded as a record of its attributes and one HOL
  function per method. A method takes the state it runs in and returns the state it
  leaves, also when it raises: an exception of the source is the \<open>Inl\<close> branch of the
  result, next to the state as it was at the \<^verbatim>\<open>raise\<close>. The model is sequential: the
  lock \<^verbatim>\<open>self.lock\<close> is acquired and released within each method and holds no data.
\<close>

subsection \<open>Strings\<close>

text \<open>
  \<^verbatim>\<open>str.lower()\<close> on the characters of \<^typ>\<open>string\<close>: the letters A to Z are mapped to
  a to z (code 65 to 90, plus 32: bit 5 set), every other character is kept.
\<close>

definition lower_char :: "char \<Rightarrow> char" where
  "lower_char c =
     (if 65 \<le> (of_char c :: nat) \<and> (of_char c :: nat) \<le> 90
      then (case c of Char b0 b1 b2 b3 b4 b5 b6 b7 \<Rightarrow> Char b0 b1 b2 b3 b4 True b6 b7)
      else c)"

definition lower :: "string \<Rightarrow> string" where
  "lower s = map lower_char s"

text \<open>
  \<^verbatim>\<open>x in [a, b, ...]\<close> for a value that is \<^verbatim>\<open>None\<close> or a string; \<^verbatim>\<open>None\<close> is in
  no list of strings.
\<close>

definition py_in :: "string option \<Rightarrow> string list \<Rightarrow> bool" where
  "py_in x xs = (case x of None \<Rightarrow> False | Some s \<Rightarrow> s \<in> set xs)"

subsection \<open>The content object\<close>

text \<open>
  \<^verbatim>\<open>SubtitleFile\<close>, its settings dictionary and its scenes belong to the repository but
  their classes are not among the sources at hand; the record holds the attributes that
  \<^verbatim>\<open>SubtitleProject\<close> reads and writes. A settings value is \<^verbatim>\<open>None\<close>, a boolean, an
  integer or a string; a dictionary is an association list in insertion order.
\<close>

datatype pyval = PNone | PBool bool | PInt int | PStr string

type_synonym settings = "(string \<times> pyval) list"

record scene =
  number :: int
  summary :: string

record subtitle_file =
  sourcepath :: "string option"
  outputpath :: "string option"
  target_language :: "string option"
  settings :: settings
  scenes :: "scene list"
  has_subtitles :: bool

text \<open>
  What the attribute \<^verbatim>\<open>self.subtitles\<close> can hold: \<^verbatim>\<open>None\<close>, a \<^verbatim>\<open>SubtitleFile\<close>, or an
  object of another type, of which only its truth value matters.
\<close>

datatype content = PyNone | SubtitleFile subtitle_file | OtherObject bool

fun truthy :: "content \<Rightarrow> bool" where
  "truthy PyNone = False"
| "truthy (SubtitleFile sf) = True"
| "truthy (OtherObject b) = b"

fun isinstance_SubtitleFile :: "content \<Rightarrow> bool" where
  "isinstance_SubtitleFile (SubtitleFile sf) = True"
| "isinstance_SubtitleFile c = False"

subsection \<open>The project object\<close>

record thread =
  daemon :: bool
  started :: bool

record project =
  subtitles :: content
  projectfile :: "string option"
  needsupdate :: bool
  stop_event :: "bool option"
  periodic_update_thread :: "thread option"
  periodic_update_interval :: "nat option"
  include_original :: bool
  read_project :: bool
  write_project :: bool
  update_project :: bool
  load_subtitles :: bool
  preview :: bool
  resume :: bool
  reparse :: bool
  retranslate :: bool

text \<open>
  The three values the constructor takes from its \<^verbatim>\<open>Options\<close> argument:
  \<^verbatim>\<open>options.get('project', '')\<close>, which is \<^verbatim>\<open>None\<close> or a string, and the truth values of
  \<^verbatim>\<open>options.get('autosave')\<close> and \<^verbatim>\<open>options.get('include_original', False)\<close>.
\<close>

record options =
  opt_project :: "string option"
  opt_autosave :: bool
  opt_include_original :: bool

text \<open>\<^verbatim>\<open>_start_autosave_thread\<close> (lines 307-312).\<close>

definition start_autosave_thread :: "project \<Rightarrow> project" where
  "start_autosave_thread p =
     p\<lparr>stop_event := Some False,
       periodic_update_thread := Some \<lparr>daemon = True, started = True\<rparr>,
       periodic_update_interval := Some 20\<rparr>"

text \<open>
  \<^verbatim>\<open>__init__\<close> (lines 17-42). The mode is lowered only when it is a non-empty string.
  Line 42 is the expression \<^verbatim>\<open>self._start_autosave_thread\<close>, an attribute access without a
  call: it evaluates the bound method and drops it, so both branches of the last
  conditional leave the object as it is.
\<close>

definition SubtitleProject_init :: "options \<Rightarrow> project" where
  "SubtitleProject_init opts =
     (let project_mode =
            (case opt_project opts of
               None \<Rightarrow> None
             | Some s \<Rightarrow> if s \<noteq> [] then Some (lower s) else Some s);
          rd = py_in project_mode [''true'', ''read'', ''resume'', ''retranslate'', ''reparse''];
          wr = py_in project_mode
                 [''true'', ''write'', ''preview'', ''resume'', ''retranslate'', ''reparse''];
          upd = (wr \<and> \<not> py_in project_mode [''reparse'']);
          p = \<lparr>subtitles = PyNone,
               projectfile = None,
               needsupdate = False,
               stop_event = None,
               periodic_update_thread = None,
               periodic_update_interval = None,
               include_original = opt_include_original opts,
               read_project = rd,
               write_project = wr,
               update_project = upd,
               load_subtitles =
                 (project_mode = None
                  \<or> py_in project_mode [''true'', ''write'', ''reload'', ''preview'']),
               preview = py_in project_mode [''preview''],
               resume = py_in project_mode [''resume''],
               reparse = py_in project_mode [''reparse''],
               retranslate = py_in project_mode [''retranslate'']\<rparr>
      in if upd \<and> opt_autosave opts then p else p)"

text \<open>
  The eight mode flags of a project, in the order read, write, update, load-source,
  preview, resume, reparse, retranslate.
\<close>

definition mode_flags ::
  "project \<Rightarrow> bool \<times> bool \<times> bool \<times> bool \<times> bool \<times> bool \<times> bool \<times> bool" where
  "mode_flags p =
     (read_project p, write_project p, update_project p, load_subtitles p,
      preview p, resume p, reparse p, retranslate p)"

text \<open>The five of them that no method assigns after the constructor.\<close>

definition fixed_flags :: "project \<Rightarrow> bool \<times> bool \<times> bool \<times> bool \<times> bool" where
  "fixed_flags p = (update_project p, preview p, resume p, reparse p, retranslate p)"

subsection \<open>Errors, collaborators and the world outside the object\<close>

text \<open>
  The exceptions of the source, by class. \<open>Exception\<close> and \<open>ValueError\<close> carry the
  message of the \<^verbatim>\<open>raise\<close>; \<open>AttributeError\<close>, \<open>TypeError\<close> and \<open>UnboundLocalError\<close> are
  the ones Python itself raises when an attribute of \<^verbatim>\<open>None\<close> is read, \<^verbatim>\<open>open(None)\<close> is
  called, or a local variable is read before its first assignment; \<open>OSError\<close> and
  \<open>UnicodeDecodeError\<close> come from the file system and from reading bytes that are not
  text in the encoding.
\<close>

datatype error =
    Exception string
  | ValueError string
  | TranslationAbortedError string
  | AttributeError
  | TypeError
  | UnboundLocalError
  | OSError string
  | UnicodeDecodeError

text \<open>
  What the class uses and the sources at hand do not hold: the path functions of
  \<^verbatim>\<open>os.path\<close> (which depend on the platform), \<^verbatim>\<open>Helpers.GetOutputPath\<close>, and the methods
  \<^verbatim>\<open>SubtitleFile(filepath)\<close>, \<^verbatim>\<open>LoadSubtitles\<close>, \<^verbatim>\<open>Sanitise\<close> and \<^verbatim>\<open>GetScene\<close> of the content
  object.
  They are parameters of the model. So is what the file system and the encoder answer
  when a project file is written (lines 165-167): \<open>open_write\<close> is the error that
  \<^verbatim>\<open>open(projectfile, 'w')\<close> raises for a path, if any (a directory that does not exist, a
  file that may not be written), and \<open>write_json\<close> the error that \<^verbatim>\<open>json.dumps\<close> or
  \<^verbatim>\<open>f.write\<close> raises for a content object, if any, once the file has been opened.
\<close>

record env =
  normpath :: "string \<Rightarrow> string"
  splitext :: "string \<Rightarrow> string \<times> string"
  GetOutputPath :: "string option \<Rightarrow> string option \<Rightarrow> string option"
  new_SubtitleFile :: "string \<Rightarrow> subtitle_file"
  LoadSubtitles :: "subtitle_file \<Rightarrow> error + subtitle_file"
  Sanitise :: "subtitle_file \<Rightarrow> subtitle_file"
  GetScene :: "subtitle_file \<Rightarrow> int \<Rightarrow> error + scene"
  open_write :: "string \<Rightarrow> error option"
  write_json :: "subtitle_file \<Rightarrow> error option"

text \<open>
  What is at a path on disk, as far as reading it as a project file goes: the document
  \<^verbatim>\<open>json.dumps(subtitles, cls=SubtitleEncoder)\<close> of a content object, represented by that
  content; text that \<^verbatim>\<open>json.load\<close> rejects with a \<^verbatim>\<open>JSONDecodeError\<close> (an empty or a
  half-written file is such); or something that makes \<^verbatim>\<open>open\<close>, \<^verbatim>\<open>json.load\<close> or
  \<^verbatim>\<open>Sanitise\<close> raise another error, which \<^verbatim>\<open>ReadProjectFile\<close> does not catch
  (\<open>UnicodeDecodeError\<close> for bytes that are not text in the encoding, \<open>OSError\<close> for a
  directory or a file that may not be read, \<open>AttributeError\<close> for a document that
  decodes to something else than a content object).
\<close>

datatype file_data = ProjectJson subtitle_file | Undecodable | Raising error

text \<open>
  The events of the translator, each with a label for its argument (the scenes, the batch,
  the scene), and the handlers that can be attached to them: the three bound methods of
  this project and handlers of other subscribers.
\<close>

datatype signal = Preprocessed nat | BatchTranslated nat | SceneTranslated nat

datatype handler = OnPreprocessed | OnBatchTranslated | OnSceneTranslated | Foreign nat

text \<open>
  The effects that leave the object, in the order they happen: a project file written
  completely; a project file opened for writing, and so emptied, when the write then
  failed; a call of the content's \<^verbatim>\<open>SaveTranslation\<close> (which writes the translated
  output) with the content as it is at the call; an event forwarded on the project's own
  event bus \<^verbatim>\<open>self.events\<close>, with the value of \<^verbatim>\<open>needsupdate\<close> that a subscriber of that bus
  finds when it is called; a handler of another subscriber of the translator called.
  Logging is not modelled.
\<close>

datatype effect =
    WriteFile string subtitle_file
  | TruncateFile string
  | SaveTranslationCall subtitle_file "string option"
  | Forward signal bool
  | ForeignCall nat nat

record world =
  self :: project
  files :: "string \<rightharpoonup> file_data"
  trace :: "effect list"

text \<open>The truth value of a path that is \<^verbatim>\<open>None\<close> or a string.\<close>

definition str_truthy :: "string option \<Rightarrow> bool" where
  "str_truthy x = (case x of None \<Rightarrow> False | Some s \<Rightarrow> s \<noteq> [])"

text \<open>\<^verbatim>\<open>os.path.exists\<close>; nothing exists at the empty path.\<close>

definition path_exists :: "world \<Rightarrow> string \<Rightarrow> bool" where
  "path_exists w p = (p \<noteq> [] \<and> files w p \<noteq> None)"

subsection \<open>The project store\<close>

text \<open>\<^verbatim>\<open>GetProjectFilepath\<close> and \<^verbatim>\<open>GetBackupFilepath\<close> (lines 114-121).\<close>

definition GetProjectFilepath :: "env \<Rightarrow> string \<Rightarrow> string" where
  "GetProjectFilepath env filepath =
     (case splitext env filepath of
        (path, ext) \<Rightarrow>
          normpath env (if ext = ''.subtrans'' then filepath else path @ ''.subtrans''))"

definition GetBackupFilepath :: "env \<Rightarrow> string \<Rightarrow> string" where
  "GetBackupFilepath env filepath = GetProjectFilepath env filepath @ ''-backup''"

text \<open>
  \<^verbatim>\<open>WriteProjectFile\<close> (lines 134-169). The three checks of the content come first. Then an
  explicit path switches write and read on when write was off, and becomes the project
  path when none was set. Lines 165-167: when \<^verbatim>\<open>open\<close> raises, the file is as it was;
  when \<^verbatim>\<open>json.dumps\<close> or \<^verbatim>\<open>f.write\<close> raises, the file has been opened and is left empty or
  half-written; in both cases the error leaves the method after the assignments of lines
  148-156 and before \<^verbatim>\<open>needsupdate\<close> is cleared.
\<close>

definition WriteProjectFile :: "env \<Rightarrow> string option \<Rightarrow> world \<Rightarrow> (error + unit) \<times> world" where
  "WriteProjectFile env projectfile_arg w =
     (if \<not> truthy (subtitles (self w))
      then (Inl (Exception ''Can't write project file, no subtitles''), w)
      else case subtitles (self w) of
        SubtitleFile sf \<Rightarrow>
          if scenes sf = [] then (Inl (Exception ''Can't write project file, no scenes''), w)
          else
            let p0 = self w;
                p1 = (if str_truthy projectfile_arg \<and> \<not> write_project p0
                      then p0\<lparr>write_project := True, read_project := True\<rparr> else p0);
                target = (if \<not> str_truthy projectfile_arg then projectfile p1
                          else projectfile_arg);
                sf2 = (if str_truthy projectfile_arg \<and> \<not> str_truthy (projectfile p1)
                       then sf\<lparr>outputpath :=
                                 GetOutputPath env projectfile_arg (target_language sf)\<rparr>
                       else sf);
                p2 = (if str_truthy projectfile_arg \<and> \<not> str_truthy (projectfile p1)
                      then p1\<lparr>projectfile := map_option (GetProjectFilepath env) projectfile_arg,
                              subtitles := SubtitleFile sf2\<rparr>
                      else p1)
            in (case target of
                  None \<Rightarrow> (Inl (Exception ''No file path provided''), w\<lparr>self := p2\<rparr>)
                | Some t \<Rightarrow>
                    if t = [] then (Inl (Exception ''No file path provided''), w\<lparr>self := p2\<rparr>)
                    else (case open_write env (normpath env t) of
                            Some e \<Rightarrow> (Inl e, w\<lparr>self := p2\<rparr>)
                          | None \<Rightarrow>
                              (case write_json env sf2 of
                                 Some e \<Rightarrow>
                                   (Inl e,
                                    w\<lparr>self := p2,
                                      files := (files w)(normpath env t \<mapsto> Undecodable),
                                      trace := trace w @ [TruncateFile (normpath env t)]\<rparr>)
                               | None \<Rightarrow>
                                   (Inr (),
                                    w\<lparr>self := p2\<lparr>needsupdate := False\<rparr>,
                                      files := (files w)(normpath env t \<mapsto> ProjectJson sf2),
                                      trace := trace w @ [WriteFile (normpath env t) sf2]\<rparr>))))
      | _ \<Rightarrow> (Inl (Exception ''Can't write project file, wrong content type''), w))"

text \<open>\<^verbatim>\<open>WriteBackupFile\<close> (lines 171-177).\<close>

definition WriteBackupFile :: "env \<Rightarrow> world \<Rightarrow> (error + unit) \<times> world" where
  "WriteBackupFile env w =
     (case projectfile (self w) of
        Some pf \<Rightarrow>
          if truthy (subtitles (self w)) \<and> pf \<noteq> []
          then WriteProjectFile env (Some (GetBackupFilepath env pf)) w
          else (Inr (), w)
      | None \<Rightarrow> (Inr (), w))"

text \<open>
  Lines 188-191 of \<^verbatim>\<open>ReadProjectFile\<close>, and their \<^verbatim>\<open>except\<close> clauses: opening the file at a
  path, decoding it and sanitising the content. The result is the content, or \<^verbatim>\<open>None\<close>
  when the file is missing (as it is at the empty path) or \<^verbatim>\<open>json.load\<close> raises a
  \<^verbatim>\<open>JSONDecodeError\<close>; any other error leaves the method.
\<close>

definition load_project_json :: "env \<Rightarrow> world \<Rightarrow> string \<Rightarrow> error + subtitle_file option" where
  "load_project_json env w filepath =
     (case (if filepath = [] then None else files w filepath) of
        None \<Rightarrow> Inr None
      | Some Undecodable \<Rightarrow> Inr None
      | Some (Raising e) \<Rightarrow> Inl e
      | Some (ProjectJson sf) \<Rightarrow> Inr (Some (Sanitise env sf)))"

text \<open>
  \<^verbatim>\<open>ReadProjectFile\<close> (lines 179-202). \<^verbatim>\<open>open(None)\<close> raises a \<^verbatim>\<open>TypeError\<close>, which the method
  does not catch. The content that was read becomes the content of the project.
\<close>

definition ReadProjectFile ::
  "env \<Rightarrow> string option \<Rightarrow> world \<Rightarrow> (error + subtitle_file option) \<times> world" where
  "ReadProjectFile env filepath_arg w =
     (case (if str_truthy filepath_arg then filepath_arg else projectfile (self w)) of
        None \<Rightarrow> (Inl TypeError, w)
      | Some filepath \<Rightarrow>
          (case load_project_json env w filepath of
             Inl e \<Rightarrow> (Inl e, w)
           | Inr None \<Rightarrow> (Inr None, w)
           | Inr (Some sf) \<Rightarrow>
               (Inr (Some sf), w\<lparr>self := (self w)\<lparr>subtitles := SubtitleFile sf\<rparr>\<rparr>)))"

text \<open>
  \<^verbatim>\<open>LoadSubtitleFile\<close> (lines 123-132). The new content object is assigned before it is
  loaded, so it stays assigned when loading raises.
\<close>

definition LoadSubtitleFile :: "env \<Rightarrow> string \<Rightarrow> world \<Rightarrow> (error + subtitle_file) \<times> world" where
  "LoadSubtitleFile env filepath w =
     (case LoadSubtitles env (new_SubtitleFile env filepath) of
        Inl e \<Rightarrow>
          (Inl e, w\<lparr>self := (self w)\<lparr>subtitles := SubtitleFile (new_SubtitleFile env filepath)\<rparr>\<rparr>)
      | Inr sf \<Rightarrow> (Inr sf, w\<lparr>self := (self w)\<lparr>subtitles := SubtitleFile sf\<rparr>\<rparr>))"

text \<open>\<^verbatim>\<open>UpdateProjectFile\<close> (lines 204-212).\<close>

definition UpdateProjectFile :: "world \<Rightarrow> (error + unit) \<times> world" where
  "UpdateProjectFile w =
     (if update_project (self w)
      then if \<not> truthy (subtitles (self w))
           then (Inl (Exception ''Unable to update project file, no subtitles''), w)
           else (Inr (), w\<lparr>self := (self w)\<lparr>needsupdate := True\<rparr>\<rparr>)
      else (Inr (), w))"

text \<open>
  \<^verbatim>\<open>SaveTranslation\<close> (lines 98-106). Whatever the call raises is caught and logged: with
  no content object there is no call, and a failure inside the collaborator changes
  nothing in the project.
\<close>

definition SaveTranslation :: "string option \<Rightarrow> world \<Rightarrow> world" where
  "SaveTranslation outputpath_arg w =
     (case subtitles (self w) of
        SubtitleFile sf \<Rightarrow> w\<lparr>trace := trace w @ [SaveTranslationCall sf outputpath_arg]\<rparr>
      | _ \<Rightarrow> w)"

subsection \<open>Settings\<close>

text \<open>
  \<^verbatim>\<open>d.get(key)\<close> is \<^verbatim>\<open>None\<close> for a missing key. \<^verbatim>\<open>==\<close> on the values compares like with
  like, and a boolean with an integer as 0 or 1.
\<close>

definition dict_get :: "settings \<Rightarrow> string \<Rightarrow> pyval" where
  "dict_get d k = (case map_of d k of None \<Rightarrow> PNone | Some v \<Rightarrow> v)"

fun py_eq :: "pyval \<Rightarrow> pyval \<Rightarrow> bool" where
  "py_eq (PBool a) (PInt i) = (i = (if a then 1 else 0))"
| "py_eq (PInt i) (PBool a) = (i = (if a then 1 else 0))"
| "py_eq x y = (x = y)"

primrec dict_set :: "string \<Rightarrow> pyval \<Rightarrow> settings \<Rightarrow> settings" where
  "dict_set k v [] = [(k, v)]"
| "dict_set k v (e # es) = (if fst e = k then (k, v) # es else e # dict_set k v es)"

definition dict_update :: "settings \<Rightarrow> settings \<Rightarrow> settings" where
  "dict_update d new = fold (\<lambda>e. dict_set (fst e) (snd e)) new d"

text \<open>
  Modelled from the spec: the methods \<^verbatim>\<open>UpdateProjectSettings\<close> and \<^verbatim>\<open>UpdateOutputPath\<close> of
  the content object (\<^verbatim>\<open>SubtitleFile\<close>) are missing. The first "applies the changes to
  content settings": every supplied entry is stored. The second "recomputes the output
  path", here from the source path and the target language.
\<close>

definition content_UpdateProjectSettings :: "settings \<Rightarrow> subtitle_file \<Rightarrow> subtitle_file" where
  "content_UpdateProjectSettings new sf = sf\<lparr>settings := dict_update (settings sf) new\<rparr>"

definition UpdateOutputPath :: "env \<Rightarrow> subtitle_file \<Rightarrow> subtitle_file" where
  "UpdateOutputPath env sf =
     sf\<lparr>outputpath := GetOutputPath env (sourcepath sf) (target_language sf)\<rparr>"

text \<open>
  \<^verbatim>\<open>UpdateProjectSettings\<close> (lines 220-238); the argument is the dictionary, taken out of
  an \<^verbatim>\<open>Options\<close> object if that is what was passed. With a content object of another
  type, reading its \<^verbatim>\<open>settings\<close> for the first key raises.
\<close>

definition UpdateProjectSettings :: "env \<Rightarrow> settings \<Rightarrow> world \<Rightarrow> (error + unit) \<times> world" where
  "UpdateProjectSettings env new w =
     (if \<not> truthy (subtitles (self w)) then (Inr (), w)
      else case subtitles (self w) of
        SubtitleFile sf \<Rightarrow>
          if list_all (\<lambda>key. py_eq (dict_get new key) (dict_get (settings sf) key))
               (map fst new)
          then (Inr (), w)
          else
            let sf1 = content_UpdateProjectSettings new sf;
                w1 = w\<lparr>self := (self w)\<lparr>subtitles := SubtitleFile sf1\<rparr>\<rparr>
            in if scenes sf1 \<noteq> []
               then WriteProjectFile env None
                      (w1\<lparr>self := (self w1)\<lparr>subtitles := SubtitleFile (UpdateOutputPath env sf1)\<rparr>\<rparr>)
               else (Inr (), w1)
      | _ \<Rightarrow> if new = [] then (Inr (), w) else (Inl AttributeError, w))"

subsection \<open>The event handlers\<close>

text \<open>
  \<^verbatim>\<open>_on_preprocessed\<close>, \<^verbatim>\<open>_on_batch_translated\<close> and \<^verbatim>\<open>_on_scene_translated\<close> (lines
  321-335), each with the label of its argument. The last statement of each raises the
  event of the same name on \<^verbatim>\<open>self.events\<close>.
\<close>

definition forward :: "signal \<Rightarrow> world \<Rightarrow> world" where
  "forward g w = w\<lparr>trace := trace w @ [Forward g (needsupdate (self w))]\<rparr>"

definition on_preprocessed :: "nat \<Rightarrow> world \<Rightarrow> world" where
  "on_preprocessed x w =
     forward (Preprocessed x) (w\<lparr>self := (self w)\<lparr>needsupdate := update_project (self w)\<rparr>\<rparr>)"

definition on_batch_translated :: "nat \<Rightarrow> world \<Rightarrow> world" where
  "on_batch_translated x w =
     forward (BatchTranslated x)
       (w\<lparr>self := (self w)\<lparr>needsupdate := update_project (self w)\<rparr>\<rparr>)"

definition on_scene_translated :: "nat \<Rightarrow> world \<Rightarrow> world" where
  "on_scene_translated x w =
     (let w1 = SaveTranslation None w
      in forward (SceneTranslated x)
           (w1\<lparr>self := (self w1)\<lparr>needsupdate := update_project (self w1)\<rparr>\<rparr>))"

subsection \<open>The translator\<close>

text \<open>
  Modelled from the spec: the class \<^verbatim>\<open>TranslationEvents\<close> is missing; the translator has
  "a subscribable event set with exactly three named events supporting dynamic
  subscribe/unsubscribe". An event is the list of its handlers: \<^verbatim>\<open>+=\<close> appends one,
  \<^verbatim>\<open>-=\<close> removes it, raising the event calls the handlers in the order of the list.
\<close>

record translator =
  events_preprocessed :: "handler list"
  events_batch_translated :: "handler list"
  events_scene_translated :: "handler list"
  stop_on_error :: bool

definition subscribe :: "handler \<Rightarrow> handler list \<Rightarrow> handler list" where
  "subscribe h hs = hs @ [h]"

definition unsubscribe :: "handler \<Rightarrow> handler list \<Rightarrow> handler list" where
  "unsubscribe h hs = removeAll h hs"

fun call_handler :: "handler \<Rightarrow> nat \<Rightarrow> world \<Rightarrow> world" where
  "call_handler OnPreprocessed x w = on_preprocessed x w"
| "call_handler OnBatchTranslated x w = on_batch_translated x w"
| "call_handler OnSceneTranslated x w = on_scene_translated x w"
| "call_handler (Foreign n) x w = w\<lparr>trace := trace w @ [ForeignCall n x]\<rparr>"

primrec dispatch :: "handler list \<Rightarrow> nat \<Rightarrow> world \<Rightarrow> world" where
  "dispatch [] x w = w"
| "dispatch (h # hs) x w = dispatch hs x (call_handler h x w)"

fun fire :: "translator \<Rightarrow> signal \<Rightarrow> world \<Rightarrow> world" where
  "fire tr (Preprocessed x) w = dispatch (events_preprocessed tr) x w"
| "fire tr (BatchTranslated x) w = dispatch (events_batch_translated tr) x w"
| "fire tr (SceneTranslated x) w = dispatch (events_scene_translated tr) x w"

text \<open>
  What the translator does in one call of \<^verbatim>\<open>translator.TranslateSubtitles\<close> or
  \<^verbatim>\<open>translator.TranslateScene\<close>, as far as the project sees it: in order, the events it
  raises and the changes it makes to the content object it was given (the translations
  it stores there), and then whether it returns or raises. A change is given by the
  content after it; the object stays the one the project holds.
\<close>

datatype step = Raise signal | Mutate subtitle_file

datatype outcome = Returns | Raises error

record behaviour =
  signals :: "step list"
  outcome :: outcome

fun run_step :: "translator \<Rightarrow> step \<Rightarrow> world \<Rightarrow> world" where
  "run_step tr (Raise g) w = fire tr g w"
| "run_step tr (Mutate sf') w =
     (case subtitles (self w) of
        SubtitleFile sf \<Rightarrow> w\<lparr>self := (self w)\<lparr>subtitles := SubtitleFile sf'\<rparr>\<rparr>
      | _ \<Rightarrow> w)"

primrec run_signals :: "translator \<Rightarrow> step list \<Rightarrow> world \<Rightarrow> world" where
  "run_signals tr [] w = w"
| "run_signals tr (g # gs) w = run_signals tr gs (run_step tr g w)"

subsection \<open>The translation orchestrator\<close>

text \<open>
  The subscriptions of \<^verbatim>\<open>TranslateSubtitles\<close> (lines 252-254) and their removal (lines
  258-260); those of \<^verbatim>\<open>TranslateScene\<close> (lines 283-284 and 290-291).
\<close>

definition attach_run_handlers :: "translator \<Rightarrow> translator" where
  "attach_run_handlers tr =
     tr\<lparr>events_preprocessed := subscribe OnPreprocessed (events_preprocessed tr),
        events_batch_translated := subscribe OnBatchTranslated (events_batch_translated tr),
        events_scene_translated := subscribe OnSceneTranslated (events_scene_translated tr)\<rparr>"

definition detach_run_handlers :: "translator \<Rightarrow> translator" where
  "detach_run_handlers tr =
     tr\<lparr>events_preprocessed := unsubscribe OnPreprocessed (events_preprocessed tr),
        events_batch_translated := unsubscribe OnBatchTranslated (events_batch_translated tr),
        events_scene_translated := unsubscribe OnSceneTranslated (events_scene_translated tr)\<rparr>"

definition attach_scene_handlers :: "translator \<Rightarrow> translator" where
  "attach_scene_handlers tr =
     tr\<lparr>events_preprocessed := subscribe OnPreprocessed (events_preprocessed tr),
        events_batch_translated := subscribe OnBatchTranslated (events_batch_translated tr)\<rparr>"

definition detach_scene_handlers :: "translator \<Rightarrow> translator" where
  "detach_scene_handlers tr =
     tr\<lparr>events_preprocessed := unsubscribe OnPreprocessed (events_preprocessed tr),
        events_batch_translated := unsubscribe OnBatchTranslated (events_batch_translated tr)\<rparr>"

text \<open>
  \<^verbatim>\<open>TranslateSubtitles\<close> (lines 240-273). The handlers are attached inside the \<^verbatim>\<open>try\<close> and
  detached after the translator's call has returned; the two \<^verbatim>\<open>except\<close> clauses re-raise.
\<close>

definition TranslateSubtitles ::
  "env \<Rightarrow> translator \<Rightarrow> behaviour \<Rightarrow> world \<Rightarrow> (error + unit) \<times> translator \<times> world" where
  "TranslateSubtitles env tr b w =
     (if \<not> truthy (subtitles (self w)) then (Inl (Exception ''No subtitles to translate''), tr, w)
      else case (if write_project (self w) then WriteProjectFile env None w else (Inr (), w)) of
        (Inl e, w1) \<Rightarrow> (Inl e, tr, w1)
      | (Inr u, w1) \<Rightarrow>
          let tr1 = attach_run_handlers tr;
              w2 = run_signals tr1 (signals b) w1
          in (case outcome b of
                Returns \<Rightarrow> (Inr (), detach_run_handlers tr1, SaveTranslation None w2)
              | Raises (TranslationAbortedError m) \<Rightarrow> (Inl (TranslationAbortedError m), tr1, w2)
              | Raises e \<Rightarrow>
                  (Inl e, tr1,
                   if truthy (subtitles (self w2)) \<and> stop_on_error tr1
                   then SaveTranslation None w2 else w2)))"

text \<open>
  \<^verbatim>\<open>TranslateScene\<close> (lines 275-305). \<^verbatim>\<open>GetScene\<close> is called inside the \<^verbatim>\<open>try\<close>, after the
  handlers are attached; when it raises, the translator is not called. The scene is
  returned as \<^verbatim>\<open>GetScene\<close> gave it.
\<close>

definition TranslateScene ::
  "env \<Rightarrow> translator \<Rightarrow> int \<Rightarrow> behaviour \<Rightarrow> world \<Rightarrow> (error + scene) \<times> translator \<times> world" where
  "TranslateScene env tr scene_number b w =
     (if \<not> truthy (subtitles (self w)) then (Inl (Exception ''No subtitles to translate''), tr, w)
      else
        let tr1 = attach_scene_handlers tr;
            rescue = (\<lambda>w'. if truthy (subtitles (self w')) \<and> stop_on_error tr1
                            then SaveTranslation None w' else w')
        in case (case subtitles (self w) of
                   SubtitleFile sf \<Rightarrow> GetScene env sf scene_number
                 | _ \<Rightarrow> Inl AttributeError) of
             Inl (TranslationAbortedError m) \<Rightarrow> (Inl (TranslationAbortedError m), tr1, w)
           | Inl e \<Rightarrow> (Inl e, tr1, rescue w)
           | Inr scene \<Rightarrow>
               let w2 = run_signals tr1 (signals b) w
               in (case outcome b of
                     Returns \<Rightarrow> (Inr scene, detach_scene_handlers tr1, SaveTranslation None w2)
                   | Raises (TranslationAbortedError m) \<Rightarrow>
                       (Inl (TranslationAbortedError m), tr1, w2)
                   | Raises e \<Rightarrow> (Inl e, tr1, rescue w2)))"

subsection \<open>The project initialiser\<close>

text \<open>
  \<^verbatim>\<open>InitialiseProject\<close> (lines 53-96), in three parts. The local variable \<^verbatim>\<open>subtitles\<close> of
  the method is assigned only in the branches of lines 75 and 90; where it is assigned a
  content object, that object is the one \<^verbatim>\<open>self.subtitles\<close> holds. The model keeps whether
  the variable has been assigned.

  Lines 73-86: the attempt to read the project file.
\<close>

definition InitialiseProject_read :: "env \<Rightarrow> bool \<Rightarrow> world \<Rightarrow> (error + bool) \<times> world" where
  "InitialiseProject_read env write_backup w =
     (if read_project (self w)
      then case ReadProjectFile env (projectfile (self w)) w of
        (Inl e, w1) \<Rightarrow> (Inl e, w1)
      | (Inr r, w1) \<Rightarrow>
          if (case r of None \<Rightarrow> False | Some sf \<Rightarrow> scenes sf \<noteq> [])
          then let w2 = w1\<lparr>self := (self w1)\<lparr>load_subtitles := False\<rparr>\<rparr>
               in if write_backup
                  then (case WriteBackupFile env w2 of
                          (Inl e, w3) \<Rightarrow> (Inl e, w3)
                        | (Inr u, w3) \<Rightarrow> (Inr True, w3))
                  else (Inr True, w2)
          else (Inr True, w1\<lparr>self := (self w1)\<lparr>load_subtitles := True\<rparr>\<rparr>)
      else (Inr False, w))"

text \<open>Lines 92-96: the output path override and the check for subtitles.\<close>

definition InitialiseProject_finish ::
  "string \<Rightarrow> string option \<Rightarrow> bool \<Rightarrow> world \<Rightarrow> (error + unit) \<times> world" where
  "InitialiseProject_finish filepath outputpath_arg assigned w =
     (if \<not> assigned then (Inl UnboundLocalError, w)
      else case subtitles (self w) of
        SubtitleFile sf \<Rightarrow>
          let sf1 = (if str_truthy outputpath_arg then sf\<lparr>outputpath := outputpath_arg\<rparr> else sf);
              w1 = w\<lparr>self := (self w)\<lparr>subtitles := SubtitleFile sf1\<rparr>\<rparr>
          in if \<not> has_subtitles sf1
             then (Inl (ValueError (''No subtitles to translate in '' @ filepath)), w1)
             else (Inr (), w1)
      | _ \<Rightarrow> (Inl AttributeError, w))"

text \<open>Lines 61-71 and 88-90, around the two parts above.\<close>

definition InitialiseProject ::
  "env \<Rightarrow> string \<Rightarrow> string option \<Rightarrow> bool \<Rightarrow> world \<Rightarrow> (error + unit) \<times> world" where
  "InitialiseProject env filepath_arg outputpath_arg write_backup w =
     (let filepath = normpath env filepath_arg;
          pf = GetProjectFilepath env (if filepath \<noteq> [] then filepath else ''subtitles'');
          p1 = (self w)\<lparr>projectfile := Some pf\<rparr>;
          p2 = (if pf = filepath \<and> \<not> read_project p1
                then p1\<lparr>read_project := True, write_project := True\<rparr> else p1);
          p3 = (if read_project p2 \<and> \<not> path_exists w pf
                then p2\<lparr>read_project := False, load_subtitles := True\<rparr> else p2)
      in case InitialiseProject_read env write_backup (w\<lparr>self := p3\<rparr>) of
        (Inl e, w4) \<Rightarrow> (Inl e, w4)
      | (Inr assigned, w4) \<Rightarrow>
          if load_subtitles (self w4)
          then (case LoadSubtitleFile env filepath w4 of
                  (Inl e, w5) \<Rightarrow> (Inl e, w5)
                | (Inr sf, w5) \<Rightarrow> InitialiseProject_finish filepath outputpath_arg True w5)
          else InitialiseProject_finish filepath outputpath_arg assigned w4)"

subsection \<open>Operations on a project\<close>

text \<open>
  The methods a caller can invoke on a constructed project, and the world each leaves
  behind, whether it returns or raises.
\<close>

datatype operation =
    OpInitialiseProject string "string option" bool
  | OpSaveTranslation "string option"
  | OpLoadSubtitleFile string
  | OpWriteProjectFile "string option"
  | OpWriteBackupFile
  | OpReadProjectFile "string option"
  | OpUpdateProjectFile
  | OpUpdateProjectSettings settings
  | OpTranslateSubtitles translator behaviour
  | OpTranslateScene translator int behaviour

fun run_op :: "env \<Rightarrow> operation \<Rightarrow> world \<Rightarrow> world" where
  "run_op env (OpInitialiseProject f out b) w = snd (InitialiseProject env f out b w)"
| "run_op env (OpSaveTranslation out) w = SaveTranslation out w"
| "run_op env (OpLoadSubtitleFile f) w = snd (LoadSubtitleFile env f w)"
| "run_op env (OpWriteProjectFile f) w = snd (WriteProjectFile env f w)"
| "run_op env OpWriteBackupFile w = snd (WriteBackupFile env w)"
| "run_op env (OpReadProjectFile f) w = snd (ReadProjectFile env f w)"
| "run_op env OpUpdateProjectFile w = snd (UpdateProjectFile w)"
| "run_op env (OpUpdateProjectSettings d) w = snd (UpdateProjectSettings env d w)"
| "run_op env (OpTranslateSubtitles tr b) w = snd (snd (TranslateSubtitles env tr b w))"
| "run_op env (OpTranslateScene tr n b) w = snd (snd (TranslateScene env tr n b w))"

text \<open>
  A content object that passes the three checks of \<^verbatim>\<open>WriteProjectFile\<close> (lines 139-146).
\<close>

definition writable_content :: "content \<Rightarrow> bool" where
  "writable_content c = (case c of SubtitleFile sf \<Rightarrow> scenes sf \<noteq> [] | _ \<Rightarrow> False)"

text \<open>
  The operations that assign none of the eight mode flags: all but \<^verbatim>\<open>InitialiseProject\<close>,
  \<^verbatim>\<open>WriteProjectFile\<close> with an explicit path, and \<^verbatim>\<open>WriteBackupFile\<close>, which calls it with
  one.
\<close>

fun assigns_no_flag :: "operation \<Rightarrow> bool" where
  "assigns_no_flag (OpInitialiseProject f out b) = False"
| "assigns_no_flag (OpWriteProjectFile f) = (\<not> str_truthy f)"
| "assigns_no_flag OpWriteBackupFile = False"
| "assigns_no_flag op = True"

subsection \<open>An environment to evaluate in\<close>

text \<open>
  \<^verbatim>\<open>os.path.splitext\<close> and \<^verbatim>\<open>os.path.normpath\<close> as \<^verbatim>\<open>posixpath\<close> defines them. \<^verbatim>\<open>rfind\<close> is
  the last index of a character, or -1.
\<close>

definition rfind :: "char \<Rightarrow> string \<Rightarrow> int" where
  "rfind c p =
     (case filter (\<lambda>i. p ! i = c) (rev [0..<length p]) of [] \<Rightarrow> - 1 | i # _ \<Rightarrow> int i)"

definition posix_splitext :: "string \<Rightarrow> string \<times> string" where
  "posix_splitext p =
     (let sepIndex = rfind CHR ''/'' p; dotIndex = rfind CHR ''.'' p
      in if dotIndex > sepIndex
            \<and> list_ex (\<lambda>c. c \<noteq> CHR ''.'')
                (take (nat (dotIndex - (sepIndex + 1))) (drop (nat (sepIndex + 1)) p))
         then (take (nat dotIndex) p, drop (nat dotIndex) p)
         else (p, []))"

primrec split_sep :: "char \<Rightarrow> string \<Rightarrow> string list" where
  "split_sep c [] = [[]]"
| "split_sep c (x # xs) =
     (if x = c then [] # split_sep c xs
      else case split_sep c xs of [] \<Rightarrow> [[x]] | y # ys \<Rightarrow> (x # y) # ys)"

primrec norm_comps :: "nat \<Rightarrow> string list \<Rightarrow> string list \<Rightarrow> string list" where
  "norm_comps initial_slashes [] new_comps = new_comps"
| "norm_comps initial_slashes (part # comps) new_comps =
     norm_comps initial_slashes comps
       (if part = [] \<or> part = ''.'' then new_comps
        else if part \<noteq> ''..'' \<or> (initial_slashes = 0 \<and> new_comps = [])
                \<or> (new_comps \<noteq> [] \<and> last new_comps = ''..'')
        then new_comps @ [part]
        else if new_comps \<noteq> [] then butlast new_comps
        else new_comps)"

fun join_sep :: "string \<Rightarrow> string list \<Rightarrow> string" where
  "join_sep sep [] = []"
| "join_sep sep [x] = x"
| "join_sep sep (x # y # ys) = x @ sep @ join_sep sep (y # ys)"

definition posix_normpath :: "string \<Rightarrow> string" where
  "posix_normpath path =
     (if path = [] then ''.''
      else
        let initial_slashes =
              (if take 1 path = ''/''
               then if take 2 path = ''//'' \<and> take 3 path \<noteq> ''///'' then 2 else 1
               else 0 :: nat);
            comps = norm_comps initial_slashes (split_sep CHR ''/'' path) [];
            p = replicate initial_slashes CHR ''/'' @ join_sep ''/'' comps
        in if p = [] then ''.'' else p)"

text \<open>
  An instance of the parameters: the POSIX path functions, and stand-ins for the
  collaborators (an output path beside the given path, a source file that loads, a
  \<^verbatim>\<open>Sanitise\<close> that finds nothing to repair, scenes found by number, a file system in which
  one path cannot be written, an encoder that does not fail).
\<close>

definition sample_env :: env where
  "sample_env =
     \<lparr>normpath = posix_normpath,
      splitext = posix_splitext,
      GetOutputPath =
        (\<lambda>p l. map_option
           (\<lambda>q. fst (posix_splitext q) @ ''.''
                 @ (case l of None \<Rightarrow> ''translated'' | Some x \<Rightarrow> x) @ ''.srt'') p),
      new_SubtitleFile =
        (\<lambda>f. \<lparr>sourcepath = Some f, outputpath = None, target_language = None,
              settings = [], scenes = [], has_subtitles = False\<rparr>),
      LoadSubtitles = (\<lambda>sf. Inr (sf\<lparr>has_subtitles := True\<rparr>)),
      Sanitise = (\<lambda>sf. sf),
      GetScene =
        (\<lambda>sf n. case find (\<lambda>sc. number sc = n) (scenes sf) of
                  None \<Rightarrow> Inl (ValueError ''Scene does not exist'')
                | Some sc \<Rightarrow> Inr sc),
      open_write = (\<lambda>p. if p = ''/proc/movie.subtrans''
                         then Some (OSError ''Permission denied'') else None),
      write_json = (\<lambda>sf. None)\<rparr>"

text \<open>A content object with one scene, and a translator nobody has subscribed to.\<close>

definition sample_file :: subtitle_file where
  "sample_file =
     \<lparr>sourcepath = Some ''movie.srt'', outputpath = None, target_language = Some ''fr'',
      settings = [(''target_language'', PStr ''fr'')],
      scenes = [\<lparr>number = 1, summary = []\<rparr>], has_subtitles = True\<rparr>"

definition sample_translator :: translator where
  "sample_translator =
     \<lparr>events_preprocessed = [], events_batch_translated = [], events_scene_translated = [],
      stop_on_error = True\<rparr>"

text \<open>
  A project constructed with the given mode (autosave off), then given the content above
  and a project path.
\<close>

definition sample_project :: "string \<Rightarrow> project" where
  "sample_project mode =
     (SubtitleProject_init
        \<lparr>opt_project = Some mode, opt_autosave = False, opt_include_original = False\<rparr>)
       \<lparr>subtitles := SubtitleFile sample_file, projectfile := Some ''movie.subtrans''\<rparr>"

text \<open>The world around a project: no files yet, nothing has happened.\<close>

definition new_world :: "project \<Rightarrow> world" where
  "new_world p = \<lparr>self = p, files = Map.empty, trace = []\<rparr>"

section \<open>Properties\<close>

subsection \<open>The constructor\<close>

lemma init_mode_flags:
  "mode_flags (SubtitleProject_init (opts\<lparr>opt_project := Some s\<rparr>)) =
     (let m = Some (lower s) in
      (py_in m [''true'', ''read'', ''resume'', ''retranslate'', ''reparse''],
       py_in m [''true'', ''write'', ''preview'', ''resume'', ''retranslate'', ''reparse''],
       py_in m [''true'', ''write'', ''preview'', ''resume'', ''retranslate'', ''reparse'']
         \<and> \<not> py_in m [''reparse''],
       py_in m [''true'', ''write'', ''reload'', ''preview''],
       py_in m [''preview''], py_in m [''resume''], py_in m [''reparse''],
       py_in m [''retranslate'']))"
  by (cases "s = []") (simp_all add: SubtitleProject_init_def mode_flags_def Let_def lower_def)


lemma init_read:
  "SubtitleProject_init
     \<lparr>opt_project = Some ''read'', opt_autosave = False, opt_include_original = False\<rparr>
   = \<lparr>subtitles = PyNone, projectfile = None,
      needsupdate = False, stop_event = None, periodic_update_thread = None,
      periodic_update_interval = None, include_original = False,
      read_project = True, write_project = False, update_project = False,
      load_subtitles = False, preview = False, resume = False, reparse = False,
      retranslate = False\<rparr>"
  by (simp add: SubtitleProject_init_def Let_def py_in_def lower_def lower_char_def)

text \<open>
  How the mode that stands for "none given" is read: \<^verbatim>\<open>None\<close> asks for the source
  file to be loaded, the empty string (the default of \<^verbatim>\<open>options.get('project', '')\<close>)
  does not, since line 34 tests \<^verbatim>\<open>project_mode is None\<close>.
\<close>

lemma init_no_mode_load_subtitles:
  "load_subtitles (SubtitleProject_init (opts\<lparr>opt_project := None\<rparr>))"
  "\<not> load_subtitles (SubtitleProject_init (opts\<lparr>opt_project := Some []\<rparr>))"
  by (simp_all add: SubtitleProject_init_def py_in_def)

text \<open>
  C1, as the code has it. For a non-empty mode string, compared after lowering, the flags
  (read, write, update, load-source, preview, resume, reparse, retranslate) are those of
  the table of section 4.1, except that "preview" has load-source set; a non-empty string
  that is none of the eight modes gives eight false flags. For the empty string the seven
  flags other than load-source are false.
\<close>

theorem init_flags_table:
  "(s \<noteq> [] \<longrightarrow>
      mode_flags (SubtitleProject_init (opts\<lparr>opt_project := Some s\<rparr>)) =
       (let m = lower s in
        if m = ''true'' then (True, True, True, True, False, False, False, False)
        else if m = ''write'' then (False, True, True, True, False, False, False, False)
        else if m = ''read'' then (True, False, False, False, False, False, False, False)
        else if m = ''reload'' then (False, False, False, True, False, False, False, False)
        else if m = ''resume'' then (True, True, True, False, False, True, False, False)
        else if m = ''retranslate'' then (True, True, True, False, False, False, False, True)
        else if m = ''reparse'' then (True, True, False, False, False, False, True, False)
        else if m = ''preview'' then (False, True, True, True, True, False, False, False)
        else (False, False, False, False, False, False, False, False)))
   \<and> (let p = SubtitleProject_init (opts\<lparr>opt_project := Some []\<rparr>)
      in \<not> read_project p \<and> \<not> write_project p \<and> \<not> update_project p \<and> \<not> preview p
         \<and> \<not> resume p \<and> \<not> reparse p \<and> \<not> retranslate p)"
proof
  show "s \<noteq> [] \<longrightarrow>
      mode_flags (SubtitleProject_init (opts\<lparr>opt_project := Some s\<rparr>)) =
       (let m = lower s in
        if m = ''true'' then (True, True, True, True, False, False, False, False)
        else if m = ''write'' then (False, True, True, True, False, False, False, False)
        else if m = ''read'' then (True, False, False, False, False, False, False, False)
        else if m = ''reload'' then (False, False, False, True, False, False, False, False)
        else if m = ''resume'' then (True, True, True, False, False, True, False, False)
        else if m = ''retranslate'' then (True, True, True, False, False, False, False, True)
        else if m = ''reparse'' then (True, True, False, False, False, False, True, False)
        else if m = ''preview'' then (False, True, True, True, True, False, False, False)
        else (False, False, False, False, False, False, False, False))"
    unfolding init_mode_flags Let_def py_in_def by simp
next
  show "let p = SubtitleProject_init (opts\<lparr>opt_project := Some []\<rparr>)
      in \<not> read_project p \<and> \<not> write_project p \<and> \<not> update_project p \<and> \<not> preview p
         \<and> \<not> resume p \<and> \<not> reparse p \<and> \<not> retranslate p"
    by (simp add: SubtitleProject_init_def py_in_def)
qed

theorem init_flags_table_witness:
  "''ReParse'' \<noteq> [] \<and>
   mode_flags (SubtitleProject_init
     \<lparr>opt_project = Some ''ReParse'', opt_autosave = False, opt_include_original = False\<rparr>)
   = (True, True, False, False, False, False, True, False)"
  using init_flags_table
    [of "''ReParse''"
        "\<lparr>opt_project = None, opt_autosave = False, opt_include_original = False\<rparr>"]
  by (simp add: lower_def lower_char_def)

text \<open>
  C1 as stated fails at "preview": the table of section 4.1 gives it the flags write,
  update and preview only; the constructor also sets load-source, "preview" being in the
  list of line 34.
\<close>

theorem init_preview_counterexample:
  "mode_flags (SubtitleProject_init
     \<lparr>opt_project = Some ''preview'', opt_autosave = False, opt_include_original = False\<rparr>)
   \<noteq> (False, True, True, False, True, False, False, False)"
  by (simp add: SubtitleProject_init_def mode_flags_def py_in_def lower_def lower_char_def)

text \<open>
  C4, evaluated on the code. With the mode "true" (update mode active) and autosave enabled,
  the constructed project has no stop event and no thread: the autosave scheduler is not
  started, and the state differs from the one \<^verbatim>\<open>_start_autosave_thread\<close> would leave.
\<close>

theorem init_autosave_not_started:
  "update_project (SubtitleProject_init
      \<lparr>opt_project = Some ''true'', opt_autosave = True, opt_include_original = False\<rparr>)
   \<and> stop_event (SubtitleProject_init
      \<lparr>opt_project = Some ''true'', opt_autosave = True, opt_include_original = False\<rparr>) = None
   \<and> periodic_update_thread (SubtitleProject_init
      \<lparr>opt_project = Some ''true'', opt_autosave = True, opt_include_original = False\<rparr>) = None
   \<and> stop_event (start_autosave_thread (SubtitleProject_init
      \<lparr>opt_project = Some ''true'', opt_autosave = True, opt_include_original = False\<rparr>))
     = Some False"
  by (simp add: SubtitleProject_init_def start_autosave_thread_def py_in_def lower_def
      lower_char_def)

subsection \<open>The project store\<close>

text \<open>
  C2. \<^verbatim>\<open>WriteProjectFile\<close> raises when the content is absent (or otherwise false), when it
  is not a \<^verbatim>\<open>SubtitleFile\<close>, and when it has no scenes. In each case the world it leaves is
  the world it found: no file is written, nothing is added to the trace of effects, and
  the project object is unchanged.
\<close>

theorem WriteProjectFile_preconditions:
  "(\<not> truthy (subtitles (self w)) \<longrightarrow>
      WriteProjectFile env f w = (Inl (Exception ''Can't write project file, no subtitles''), w))
   \<and> (truthy (subtitles (self w)) \<and> \<not> isinstance_SubtitleFile (subtitles (self w)) \<longrightarrow>
      WriteProjectFile env f w =
        (Inl (Exception ''Can't write project file, wrong content type''), w))
   \<and> (subtitles (self w) = SubtitleFile sf \<and> scenes sf = [] \<longrightarrow>
      WriteProjectFile env f w = (Inl (Exception ''Can't write project file, no scenes''), w))"
  by (cases "subtitles (self w)") (auto simp add: WriteProjectFile_def)

theorem WriteProjectFile_preconditions_witness:
  "(\<not> truthy (subtitles (self (new_world ((sample_project ''true'')\<lparr>subtitles := PyNone\<rparr>))))
    \<and> WriteProjectFile sample_env (Some ''copy.subtrans'')
         (new_world ((sample_project ''true'')\<lparr>subtitles := PyNone\<rparr>))
       = (Inl (Exception ''Can't write project file, no subtitles''),
          new_world ((sample_project ''true'')\<lparr>subtitles := PyNone\<rparr>)))
   \<and> (truthy (OtherObject True) \<and> \<not> isinstance_SubtitleFile (OtherObject True)
    \<and> WriteProjectFile sample_env None
         (new_world ((sample_project ''true'')\<lparr>subtitles := OtherObject True\<rparr>))
       = (Inl (Exception ''Can't write project file, wrong content type''),
          new_world ((sample_project ''true'')\<lparr>subtitles := OtherObject True\<rparr>)))
   \<and> (scenes (sample_file\<lparr>scenes := []\<rparr>) = []
    \<and> WriteProjectFile sample_env None
         (new_world ((sample_project ''true'')\<lparr>subtitles := SubtitleFile (sample_file\<lparr>scenes := []\<rparr>)\<rparr>))
       = (Inl (Exception ''Can't write project file, no scenes''),
          new_world ((sample_project ''true'')\<lparr>subtitles := SubtitleFile (sample_file\<lparr>scenes := []\<rparr>)\<rparr>)))"
  using
    WriteProjectFile_preconditions
      [of "new_world ((sample_project ''true'')\<lparr>subtitles := PyNone\<rparr>)" sample_env
          "Some ''copy.subtrans''" sample_file]
    WriteProjectFile_preconditions
      [of "new_world ((sample_project ''true'')\<lparr>subtitles := OtherObject True\<rparr>)" sample_env
          None sample_file]
    WriteProjectFile_preconditions
      [of "new_world ((sample_project ''true'')\<lparr>subtitles := SubtitleFile (sample_file\<lparr>scenes := []\<rparr>)\<rparr>)"
          sample_env None "sample_file\<lparr>scenes := []\<rparr>"]
  by (simp add: new_world_def)

text \<open>
  C10. With no content loaded, \<^verbatim>\<open>UpdateProjectSettings\<close> returns normally, for every
  settings dictionary, and leaves the world as it found it.
\<close>

theorem UpdateProjectSettings_without_content:
  "\<not> truthy (subtitles (self w)) \<Longrightarrow> UpdateProjectSettings env new w = (Inr (), w)"
  by (simp add: UpdateProjectSettings_def)

theorem UpdateProjectSettings_without_content_witness:
  "\<not> truthy (subtitles (self (new_world (SubtitleProject_init
        \<lparr>opt_project = Some ''true'', opt_autosave = False, opt_include_original = False\<rparr>))))
   \<and> UpdateProjectSettings sample_env [(''target_language'', PStr ''de'')]
       (new_world (SubtitleProject_init
        \<lparr>opt_project = Some ''true'', opt_autosave = False, opt_include_original = False\<rparr>))
     = (Inr (), new_world (SubtitleProject_init
        \<lparr>opt_project = Some ''true'', opt_autosave = False, opt_include_original = False\<rparr>))"
proof -
  have h: "\<not> truthy (subtitles (self (new_world (SubtitleProject_init
        \<lparr>opt_project = Some ''true'', opt_autosave = False, opt_include_original = False\<rparr>))))"
    by (simp add: new_world_def SubtitleProject_init_def Let_def)
  from UpdateProjectSettings_without_content [OF h] h show ?thesis by simp
qed

subsection \<open>Event handlers and the translator's steps\<close>

text \<open>
  Raising an event calls the handlers one after the other; a handler changes no attribute
  of the project other than \<^verbatim>\<open>needsupdate\<close>. A step of the translator changes, besides
  that, the content, which stays a content object. Every step only adds to the trace.
\<close>

lemma dispatch_append: "dispatch (hs @ hs') x w = dispatch hs' x (dispatch hs x w)"
  by (induction hs arbitrary: w) simp_all

lemma run_signals_append:
  "run_signals tr (gs @ gs') w = run_signals tr gs' (run_signals tr gs w)"
  by (induction gs arbitrary: w) simp_all

lemma call_handler_self:
  "self (call_handler h x w) = (self w)\<lparr>needsupdate := needsupdate (self (call_handler h x w))\<rparr>"
  by (cases h)
     (simp_all add: on_preprocessed_def on_batch_translated_def on_scene_translated_def
        forward_def SaveTranslation_def Let_def split: content.splits)

lemma dispatch_self:
  "self (dispatch hs x w) = (self w)\<lparr>needsupdate := needsupdate (self (dispatch hs x w))\<rparr>"
proof (induction hs arbitrary: w)
  case Nil
  show ?case by simp
next
  case (Cons h hs)
  have "self (dispatch hs x (call_handler h x w)) =
        (self (call_handler h x w))\<lparr>needsupdate := needsupdate (self (dispatch hs x (call_handler h x w)))\<rparr>"
    by (rule Cons.IH)
  also have "\<dots> = (self w)\<lparr>needsupdate := needsupdate (self (dispatch hs x (call_handler h x w)))\<rparr>"
    by (subst call_handler_self) simp
  finally show ?case by simp
qed

lemma SaveTranslation_self: "self (SaveTranslation out w) = self w"
  by (simp add: SaveTranslation_def split: content.splits)

lemma call_handler_flags: "mode_flags (self (call_handler h x w)) = mode_flags (self w)"
  by (subst call_handler_self) (simp add: mode_flags_def)

lemma dispatch_flags: "mode_flags (self (dispatch hs x w)) = mode_flags (self w)"
  by (subst dispatch_self) (simp add: mode_flags_def)

lemma run_step_flags: "mode_flags (self (run_step tr g w)) = mode_flags (self w)"
proof (cases g)
  case (Raise s)
  then show ?thesis by (cases s) (simp_all add: dispatch_flags)
next
  case (Mutate sf')
  then show ?thesis by (simp add: mode_flags_def split: content.splits)
qed

lemma run_signals_flags: "mode_flags (self (run_signals tr gs w)) = mode_flags (self w)"
  by (induction gs arbitrary: w) (simp_all add: run_step_flags)

lemma mode_flags_update:
  "mode_flags p = mode_flags q \<Longrightarrow> update_project p = update_project q"
  by (simp add: mode_flags_def)

text \<open>The trace only grows.\<close>

lemma SaveTranslation_trace: "\<exists>r. trace (SaveTranslation out w) = trace w @ r"
  by (simp add: SaveTranslation_def split: content.splits)

lemma call_handler_trace: "\<exists>r. trace (call_handler h x w) = trace w @ r"
  by (cases h)
     (simp_all add: on_preprocessed_def on_batch_translated_def on_scene_translated_def
        forward_def SaveTranslation_def Let_def split: content.splits)

lemma dispatch_trace: "\<exists>r. trace (dispatch hs x w) = trace w @ r"
proof (induction hs arbitrary: w)
  case Nil
  show ?case by simp
next
  case (Cons h hs)
  obtain r1 where r1: "trace (call_handler h x w) = trace w @ r1"
    using call_handler_trace by blast
  obtain r2 where "trace (dispatch hs x (call_handler h x w)) = trace (call_handler h x w) @ r2"
    using Cons.IH by blast
  with r1 show ?case by simp
qed

lemma run_step_trace: "\<exists>r. trace (run_step tr g w) = trace w @ r"
proof (cases g)
  case (Raise s)
  then show ?thesis by (cases s) (simp_all add: dispatch_trace)
next
  case (Mutate sf')
  then show ?thesis by (simp split: content.splits)
qed

lemma run_signals_trace: "\<exists>r. trace (run_signals tr gs w) = trace w @ r"
proof (induction gs arbitrary: w)
  case Nil
  show ?case by simp
next
  case (Cons g gs)
  obtain r1 where r1: "trace (run_step tr g w) = trace w @ r1"
    using run_step_trace by blast
  obtain r2 where "trace (run_signals tr gs (run_step tr g w)) = trace (run_step tr g w) @ r2"
    using Cons.IH by blast
  with r1 show ?case by simp
qed

text \<open>
  The project's handler of scene-completed events, once \<^verbatim>\<open>TranslateSubtitles\<close> has attached
  it: it runs after the handlers subscribed before.
\<close>

lemma fire_scene_translated:
  assumes "subtitles (self w) = SubtitleFile sf"
  shows "run_step (attach_run_handlers tr) (Raise (SceneTranslated x)) w =
    (let w1 = dispatch (events_scene_translated tr) x w in
       w1\<lparr>self := (self w1)\<lparr>needsupdate := update_project (self w)\<rparr>,
          trace := trace w1 @ [SaveTranslationCall sf None,
                               Forward (SceneTranslated x) (update_project (self w))]\<rparr>)"
proof -
  let ?w1 = "dispatch (events_scene_translated tr) x w"
  have s: "subtitles (self ?w1) = SubtitleFile sf"
    using assms by (subst dispatch_self) simp
  have u: "update_project (self ?w1) = update_project (self w)"
    by (subst dispatch_self) simp
  show ?thesis
    by (simp add: attach_run_handlers_def subscribe_def dispatch_append on_scene_translated_def
        forward_def SaveTranslation_def s u Let_def)
qed

lemma TranslateSubtitles_reached:
  assumes "subtitles (self w) = SubtitleFile sf0"
    and "(if write_project (self w) then WriteProjectFile env None w else (Inr (), w))
         = (Inr (), wp)"
  shows "TranslateSubtitles env tr b w =
    (let tr1 = attach_run_handlers tr; w2 = run_signals tr1 (signals b) wp
     in case outcome b of
          Returns \<Rightarrow> (Inr (), detach_run_handlers tr1, SaveTranslation None w2)
        | Raises (TranslationAbortedError m) \<Rightarrow> (Inl (TranslationAbortedError m), tr1, w2)
        | Raises e \<Rightarrow>
            (Inl e, tr1,
             if truthy (subtitles (self w2)) \<and> stop_on_error tr1
             then SaveTranslation None w2 else w2))"
  using assms by (simp add: TranslateSubtitles_def Let_def)

lemma TranslateSubtitles_trace:
  assumes "subtitles (self w) = SubtitleFile sf0"
    and "(if write_project (self w) then WriteProjectFile env None w else (Inr (), w))
         = (Inr (), wp)"
  shows "\<exists>r. trace (snd (snd (TranslateSubtitles env tr b w)))
             = trace (run_signals (attach_run_handlers tr) (signals b) wp) @ r"
  unfolding TranslateSubtitles_reached [OF assms] Let_def
  using SaveTranslation_trace [of None "run_signals (attach_run_handlers tr) (signals b) wp"]
  by (auto split: outcome.splits error.splits)

text \<open>
  C3. \<^verbatim>\<open>TranslateSubtitles\<close> is called on a project that holds a \<^verbatim>\<open>SubtitleFile\<close>, its priming
  write (if write mode is on) succeeds, and the translator, after any steps \<open>gs\<close>, raises
  a scene-completed event; \<open>sf\<close> is the content at that moment. Then the event is handled
  as follows: after the handlers that were subscribed before (state \<open>w1\<close>), the project's
  handler calls \<^verbatim>\<open>SaveTranslation\<close> on the content, sets \<^verbatim>\<open>needsupdate\<close> to the update flag
  (so it is set when update mode is active) and then forwards the event on the project's
  own bus, whose subscribers find the flag set so. If the translator stops right after
  the event, this is the world \<^verbatim>\<open>TranslateSubtitles\<close> leaves; whatever the translator does
  afterwards and however it ends, the save and the forwarded event stay in the trace at
  that place. Nothing of this depends on the autosave attributes of the project, which
  are arbitrary here.
\<close>

theorem scene_translated_saves_and_forwards:
  assumes "subtitles (self w) = SubtitleFile sf0"
    and "(if write_project (self w) then WriteProjectFile env None w else (Inr (), w))
         = (Inr (), wp)"
    and "subtitles (self (run_signals (attach_run_handlers tr) gs wp)) = SubtitleFile sf"
  shows
    "(let w1 = dispatch (events_scene_translated tr) x
                 (run_signals (attach_run_handlers tr) gs wp)
      in TranslateSubtitles env tr
           \<lparr>signals = gs @ [Raise (SceneTranslated x)],
            outcome = Raises (TranslationAbortedError m)\<rparr> w
         = (Inl (TranslationAbortedError m), attach_run_handlers tr,
            w1\<lparr>self := (self w1)\<lparr>needsupdate := update_project (self w)\<rparr>,
               trace := trace w1 @ [SaveTranslationCall sf None,
                                    Forward (SceneTranslated x) (update_project (self w))]\<rparr>)
       \<and> (\<exists>r. trace (snd (snd (TranslateSubtitles env tr
                  \<lparr>signals = gs @ Raise (SceneTranslated x) # rest, outcome = out\<rparr> w)))
               = trace w1 @ [SaveTranslationCall sf None,
                             Forward (SceneTranslated x) (update_project (self w))] @ r))"
proof -
  let ?tr1 = "attach_run_handlers tr"
  let ?w0 = "run_signals ?tr1 gs wp"
  let ?w1 = "dispatch (events_scene_translated tr) x ?w0"
  let ?w2 = "?w1\<lparr>self := (self ?w1)\<lparr>needsupdate := update_project (self w)\<rparr>,
               trace := trace ?w1 @ [SaveTranslationCall sf None,
                                    Forward (SceneTranslated x) (update_project (self w))]\<rparr>"
  have fp: "mode_flags (self wp) = mode_flags (self w)"
  proof (cases "write_project (self w)")
    case True
    with assms(2) have "WriteProjectFile env None w = (Inr (), wp)" by simp
    then show ?thesis
      by (auto simp add: WriteProjectFile_def mode_flags_def str_truthy_def Let_def
          split: if_splits content.splits option.splits)
  next
    case False
    with assms(2) show ?thesis by simp
  qed
  have u: "update_project (self ?w0) = update_project (self w)"
    using run_signals_flags [of ?tr1 gs wp] fp by (simp add: mode_flags_def)
  have step: "run_step ?tr1 (Raise (SceneTranslated x)) ?w0 = ?w2"
    using fire_scene_translated [OF assms(3), of tr x] by (simp add: u Let_def)
  have A: "TranslateSubtitles env tr
           \<lparr>signals = gs @ [Raise (SceneTranslated x)],
            outcome = Raises (TranslationAbortedError m)\<rparr> w
         = (Inl (TranslationAbortedError m), ?tr1, ?w2)"
    unfolding TranslateSubtitles_reached [OF assms(1,2)]
    using step by (simp add: run_signals_append Let_def del: run_step.simps)
  have run: "run_signals ?tr1 (gs @ Raise (SceneTranslated x) # rest) wp
             = run_signals ?tr1 rest ?w2"
    using step by (simp add: run_signals_append del: run_step.simps)
  obtain r1 where r1: "trace (run_signals ?tr1 rest ?w2) = trace ?w2 @ r1"
    using run_signals_trace by blast
  obtain r2 where r2: "trace (snd (snd (TranslateSubtitles env tr
                  \<lparr>signals = gs @ Raise (SceneTranslated x) # rest, outcome = out\<rparr> w)))
        = trace (run_signals ?tr1 (gs @ Raise (SceneTranslated x) # rest) wp) @ r2"
    using TranslateSubtitles_trace [OF assms(1,2), of tr
        "\<lparr>signals = gs @ Raise (SceneTranslated x) # rest, outcome = out\<rparr>"]
    by auto
  have B: "\<exists>r. trace (snd (snd (TranslateSubtitles env tr
                  \<lparr>signals = gs @ Raise (SceneTranslated x) # rest, outcome = out\<rparr> w)))
               = trace ?w1 @ [SaveTranslationCall sf None,
                             Forward (SceneTranslated x) (update_project (self w))] @ r"
    unfolding r2 run r1 by simp
  from A B show ?thesis unfolding Let_def by blast
qed

text \<open>The project with mode "resume" that the evaluations below start from.\<close>

lemma sample_project_resume:
  "sample_project ''resume'' =
     \<lparr>subtitles = SubtitleFile sample_file, projectfile = Some ''movie.subtrans'',
      needsupdate = False, stop_event = None, periodic_update_thread = None,
      periodic_update_interval = None, include_original = False,
      read_project = True, write_project = True, update_project = True,
      load_subtitles = False, preview = False, resume = True, reparse = False,
      retranslate = False\<rparr>"
  by (simp add: sample_project_def SubtitleProject_init_def Let_def py_in_def lower_def
      lower_char_def)

lemma sample_prime:
  "(if write_project (self (new_world (sample_project ''resume'')))
    then WriteProjectFile sample_env None (new_world (sample_project ''resume''))
    else (Inr (), new_world (sample_project ''resume'')))
   = (Inr (), \<lparr>self = sample_project ''resume'',
               files = [''movie.subtrans'' \<mapsto> ProjectJson sample_file],
               trace = [WriteFile ''movie.subtrans'' sample_file]\<rparr>)"
proof -
  have n: "normpath sample_env ''movie.subtrans'' = ''movie.subtrans''"
    by (simp add: sample_env_def posix_normpath_def)
  have o: "open_write sample_env ''movie.subtrans'' = None"
    "write_json sample_env sample_file = None"
    by (simp_all add: sample_env_def)
  have sc: "scenes sample_file \<noteq> []" by (simp add: sample_file_def)
  show ?thesis
    by (simp add: new_world_def sample_project_resume WriteProjectFile_def str_truthy_def sc n o
        Let_def)
qed

theorem scene_translated_saves_and_forwards_witness:
  "subtitles (self (new_world (sample_project ''resume''))) = SubtitleFile sample_file
   \<and> (if write_project (self (new_world (sample_project ''resume'')))
       then WriteProjectFile sample_env None (new_world (sample_project ''resume''))
       else (Inr (), new_world (sample_project ''resume'')))
      = (Inr (), \<lparr>self = sample_project ''resume'',
                  files = [''movie.subtrans'' \<mapsto> ProjectJson sample_file],
                  trace = [WriteFile ''movie.subtrans'' sample_file]\<rparr>)
   \<and> subtitles (self (run_signals
         (attach_run_handlers (sample_translator\<lparr>events_scene_translated := [Foreign 7]\<rparr>))
         [Mutate (sample_file\<lparr>scenes := [\<lparr>number = 1, summary = ''done''\<rparr>]\<rparr>)]
         \<lparr>self = sample_project ''resume'',
          files = [''movie.subtrans'' \<mapsto> ProjectJson sample_file],
          trace = [WriteFile ''movie.subtrans'' sample_file]\<rparr>))
      = SubtitleFile (sample_file\<lparr>scenes := [\<lparr>number = 1, summary = ''done''\<rparr>]\<rparr>)
   \<and> TranslateSubtitles sample_env (sample_translator\<lparr>events_scene_translated := [Foreign 7]\<rparr>)
        \<lparr>signals = [Mutate (sample_file\<lparr>scenes := [\<lparr>number = 1, summary = ''done''\<rparr>]\<rparr>)]
                   @ [Raise (SceneTranslated 1)],
         outcome = Raises (TranslationAbortedError ''killed'')\<rparr>
        (new_world (sample_project ''resume''))
      = (Inl (TranslationAbortedError ''killed''),
         attach_run_handlers (sample_translator\<lparr>events_scene_translated := [Foreign 7]\<rparr>),
         \<lparr>self = (sample_project ''resume'')
             \<lparr>subtitles :=
                SubtitleFile (sample_file\<lparr>scenes := [\<lparr>number = 1, summary = ''done''\<rparr>]\<rparr>),
              needsupdate := True\<rparr>,
          files = [''movie.subtrans'' \<mapsto> ProjectJson sample_file],
          trace = [WriteFile ''movie.subtrans'' sample_file, ForeignCall 7 1,
                   SaveTranslationCall
                     (sample_file\<lparr>scenes := [\<lparr>number = 1, summary = ''done''\<rparr>]\<rparr>) None,
                   Forward (SceneTranslated 1) True]\<rparr>)
   \<and> (\<exists>r. trace (snd (snd (TranslateSubtitles sample_env
              (sample_translator\<lparr>events_scene_translated := [Foreign 7]\<rparr>)
              \<lparr>signals = [Mutate (sample_file\<lparr>scenes := [\<lparr>number = 1, summary = ''done''\<rparr>]\<rparr>)]
                         @ Raise (SceneTranslated 1) # [Raise (BatchTranslated 2)],
               outcome = Returns\<rparr>
              (new_world (sample_project ''resume'')))))
           = [WriteFile ''movie.subtrans'' sample_file, ForeignCall 7 1,
              SaveTranslationCall
                (sample_file\<lparr>scenes := [\<lparr>number = 1, summary = ''done''\<rparr>]\<rparr>) None,
              Forward (SceneTranslated 1) True] @ r)"
proof -
  let ?w = "new_world (sample_project ''resume'')"
  let ?wp = "\<lparr>self = sample_project ''resume'',
              files = [''movie.subtrans'' \<mapsto> ProjectJson sample_file],
              trace = [WriteFile ''movie.subtrans'' sample_file]\<rparr>"
  let ?tr = "sample_translator\<lparr>events_scene_translated := [Foreign 7]\<rparr>"
  let ?sf = "sample_file\<lparr>scenes := [\<lparr>number = 1, summary = ''done''\<rparr>]\<rparr>"
  have h1: "subtitles (self ?w) = SubtitleFile sample_file"
    by (simp add: new_world_def sample_project_resume)
  have h3: "subtitles (self (run_signals (attach_run_handlers ?tr) [Mutate ?sf] ?wp))
            = SubtitleFile ?sf"
    by (simp add: sample_project_resume)
  have w0: "run_signals (attach_run_handlers ?tr) [Mutate ?sf] ?wp
            = ?wp\<lparr>self := (sample_project ''resume'')\<lparr>subtitles := SubtitleFile ?sf\<rparr>\<rparr>"
    by (simp add: sample_project_resume)
  have u: "update_project (self ?w)"
    by (simp add: new_world_def sample_project_resume)
  from scene_translated_saves_and_forwards
         [OF h1 sample_prime h3, where x = 1 and m = "''killed''"
            and rest = "[Raise (BatchTranslated 2)]" and out = Returns]
       h1 sample_prime h3 u
  show ?thesis
    unfolding w0 Let_def by (simp add: sample_translator_def)
qed

subsection \<open>The translation orchestrator\<close>

text \<open>
  C8. When the translator raises \<^verbatim>\<open>TranslationAbortedError\<close>, \<^verbatim>\<open>TranslateSubtitles\<close> (after
  its priming write, if any, has succeeded) and \<^verbatim>\<open>TranslateScene\<close> (after \<^verbatim>\<open>GetScene\<close> has
  returned the scene) raise that same error, and the world they leave is the world as it
  was when the translator raised: the events handled so far, and no save after them.
\<close>

theorem abort_propagates_without_save:
  assumes "subtitles (self w) = SubtitleFile sf"
  shows
   "((if write_project (self w) then WriteProjectFile env None w else (Inr (), w)) = (Inr (), w1)
       \<longrightarrow> TranslateSubtitles env tr \<lparr>signals = gs, outcome = Raises (TranslationAbortedError m)\<rparr> w
           = (Inl (TranslationAbortedError m), attach_run_handlers tr,
              run_signals (attach_run_handlers tr) gs w1))
    \<and> (GetScene env sf n = Inr sc
       \<longrightarrow> TranslateScene env tr n \<lparr>signals = gs, outcome = Raises (TranslationAbortedError m)\<rparr> w
           = (Inl (TranslationAbortedError m), attach_scene_handlers tr,
              run_signals (attach_scene_handlers tr) gs w))"
  using assms by (simp add: TranslateSubtitles_def TranslateScene_def Let_def)

theorem abort_propagates_without_save_witness:
  "subtitles (self (new_world (sample_project ''resume''))) = SubtitleFile sample_file
   \<and> (if write_project (self (new_world (sample_project ''resume'')))
       then WriteProjectFile sample_env None (new_world (sample_project ''resume''))
       else (Inr (), new_world (sample_project ''resume'')))
      = (Inr (), \<lparr>self = sample_project ''resume'',
                  files = [''movie.subtrans'' \<mapsto> ProjectJson sample_file],
                  trace = [WriteFile ''movie.subtrans'' sample_file]\<rparr>)
   \<and> TranslateSubtitles sample_env sample_translator
        \<lparr>signals = [Raise (SceneTranslated 1)], outcome = Raises (TranslationAbortedError ''stop'')\<rparr>
        (new_world (sample_project ''resume''))
      = (Inl (TranslationAbortedError ''stop''), attach_run_handlers sample_translator,
         \<lparr>self = (sample_project ''resume'')\<lparr>needsupdate := True\<rparr>,
          files = [''movie.subtrans'' \<mapsto> ProjectJson sample_file],
          trace = [WriteFile ''movie.subtrans'' sample_file,
                   SaveTranslationCall sample_file None, Forward (SceneTranslated 1) True]\<rparr>)
   \<and> GetScene sample_env sample_file 1 = Inr \<lparr>number = 1, summary = []\<rparr>
   \<and> TranslateScene sample_env sample_translator 1
        \<lparr>signals = [Raise (BatchTranslated 4)], outcome = Raises (TranslationAbortedError ''stop'')\<rparr>
        (new_world (sample_project ''resume''))
      = (Inl (TranslationAbortedError ''stop''), attach_scene_handlers sample_translator,
         \<lparr>self = (sample_project ''resume'')\<lparr>needsupdate := True\<rparr>,
          files = Map.empty,
          trace = [Forward (BatchTranslated 4) True]\<rparr>)"
proof -
  let ?w = "new_world (sample_project ''resume'')"
  let ?w1 = "\<lparr>self = sample_project ''resume'',
                  files = [''movie.subtrans'' \<mapsto> ProjectJson sample_file],
                  trace = [WriteFile ''movie.subtrans'' sample_file]\<rparr>"
  have h: "subtitles (self ?w) = SubtitleFile sample_file"
    by (simp add: new_world_def sample_project_resume)
  have g: "GetScene sample_env sample_file 1 = Inr \<lparr>number = 1, summary = []\<rparr>"
    by (simp add: sample_env_def sample_file_def)
  from abort_propagates_without_save
         [OF h, of sample_env ?w1 sample_translator "[Raise (SceneTranslated 1)]" "''stop''" 1
            "\<lparr>number = 1, summary = []\<rparr>"]
       abort_propagates_without_save
         [OF h, of sample_env ?w1 sample_translator "[Raise (BatchTranslated 4)]" "''stop''" 1
            "\<lparr>number = 1, summary = []\<rparr>"]
       h sample_prime g
  show ?thesis
    by (simp add: attach_run_handlers_def attach_scene_handlers_def sample_translator_def
        subscribe_def on_scene_translated_def on_batch_translated_def forward_def
        SaveTranslation_def new_world_def sample_project_resume Let_def)
qed

text \<open>The project with mode "read" that the evaluations below start from.\<close>

lemma sample_project_read:
  "sample_project ''read'' =
     \<lparr>subtitles = SubtitleFile sample_file, projectfile = Some ''movie.subtrans'',
      needsupdate = False, stop_event = None, periodic_update_thread = None,
      periodic_update_interval = None, include_original = False,
      read_project = True, write_project = False, update_project = False,
      load_subtitles = False, preview = False, resume = False, reparse = False,
      retranslate = False\<rparr>"
  by (simp add: sample_project_def SubtitleProject_init_def Let_def py_in_def lower_def
      lower_char_def)

text \<open>
  C5, evaluated on the code. A translator without subscribers is passed to
  \<^verbatim>\<open>TranslateSubtitles\<close> and raises, an abort or another error; afterwards the three
  handlers of the project are still subscribed. The same for \<^verbatim>\<open>TranslateScene\<close> and its two
  handlers. The translator's subscriptions after the call are not those before it.
\<close>

theorem handlers_left_subscribed_on_error:
  "fst (snd (TranslateSubtitles sample_env sample_translator
        \<lparr>signals = [], outcome = Raises (TranslationAbortedError ''stop'')\<rparr>
        (new_world (sample_project ''read''))))
     = sample_translator\<lparr>events_preprocessed := [OnPreprocessed],
         events_batch_translated := [OnBatchTranslated],
         events_scene_translated := [OnSceneTranslated]\<rparr>
   \<and> fst (snd (TranslateSubtitles sample_env sample_translator
        \<lparr>signals = [], outcome = Raises (ValueError ''failed'')\<rparr>
        (new_world (sample_project ''read''))))
     = sample_translator\<lparr>events_preprocessed := [OnPreprocessed],
         events_batch_translated := [OnBatchTranslated],
         events_scene_translated := [OnSceneTranslated]\<rparr>
   \<and> fst (snd (TranslateScene sample_env sample_translator 1
        \<lparr>signals = [], outcome = Raises (TranslationAbortedError ''stop'')\<rparr>
        (new_world (sample_project ''read''))))
     = sample_translator\<lparr>events_preprocessed := [OnPreprocessed],
         events_batch_translated := [OnBatchTranslated]\<rparr>
   \<and> sample_translator\<lparr>events_preprocessed := [OnPreprocessed],
         events_batch_translated := [OnBatchTranslated]\<rparr> \<noteq> sample_translator"
  by (simp add: TranslateSubtitles_def TranslateScene_def sample_project_read new_world_def
      attach_run_handlers_def attach_scene_handlers_def subscribe_def sample_translator_def
      sample_env_def sample_file_def)

text \<open>
  On the path where the translator returns, the handlers are removed again, and the
  subscriptions are those before the call if the project's handlers were not among them.
\<close>

lemma handlers_detached_on_return:
  assumes "OnPreprocessed \<notin> set (events_preprocessed tr)"
    and "OnBatchTranslated \<notin> set (events_batch_translated tr)"
    and "OnSceneTranslated \<notin> set (events_scene_translated tr)"
  shows "detach_run_handlers (attach_run_handlers tr) = tr"
    and "detach_scene_handlers (attach_scene_handlers tr) = tr"
  using assms
  by (simp_all add: detach_run_handlers_def attach_run_handlers_def detach_scene_handlers_def
      attach_scene_handlers_def subscribe_def unsubscribe_def)

lemma TranslateSubtitles_returns_translator:
  assumes "TranslateSubtitles env tr \<lparr>signals = gs, outcome = Returns\<rparr> w = (Inr u, tr', w')"
  shows "tr' = detach_run_handlers (attach_run_handlers tr)"
  using assms
  by (auto simp add: TranslateSubtitles_def Let_def split: if_splits prod.splits sum.splits)

subsection \<open>Settings updates\<close>





subsection \<open>The mode flags after construction\<close>

text \<open>
  What each method does to the eight flags. Reading, loading, saving, the settings
  update, the event handlers and the two translation methods keep them.
  \<^verbatim>\<open>WriteProjectFile\<close> switches write and read on when it is given a path, write is off and
  the content passes its checks, whether or not the write then succeeds; it changes
  nothing else.
\<close>

lemma mode_flags_fixed: "mode_flags p = mode_flags q \<Longrightarrow> fixed_flags p = fixed_flags q"
  by (simp add: mode_flags_def fixed_flags_def)

lemma WriteProjectFile_flags_eq:
  "mode_flags (self (snd (WriteProjectFile env f w))) =
     (let sets = (str_truthy f \<and> \<not> write_project (self w)
                  \<and> writable_content (subtitles (self w)))
      in (read_project (self w) \<or> sets, write_project (self w) \<or> sets,
          update_project (self w), load_subtitles (self w), preview (self w),
          resume (self w), reparse (self w), retranslate (self w)))"
  by (cases "subtitles (self w)")
     (auto simp add: WriteProjectFile_def writable_content_def mode_flags_def Let_def
        split: option.splits)

lemma WriteProjectFile_flag_parts:
  "read_project (self (snd (WriteProjectFile env f w))) =
     (read_project (self w) \<or> (str_truthy f \<and> \<not> write_project (self w)
                                 \<and> writable_content (subtitles (self w))))"
  "write_project (self (snd (WriteProjectFile env f w))) =
     (write_project (self w) \<or> (str_truthy f \<and> writable_content (subtitles (self w))))"
  "update_project (self (snd (WriteProjectFile env f w))) = update_project (self w)"
  "load_subtitles (self (snd (WriteProjectFile env f w))) = load_subtitles (self w)"
  "preview (self (snd (WriteProjectFile env f w))) = preview (self w)"
  "resume (self (snd (WriteProjectFile env f w))) = resume (self w)"
  "reparse (self (snd (WriteProjectFile env f w))) = reparse (self w)"
  "retranslate (self (snd (WriteProjectFile env f w))) = retranslate (self w)"
  using WriteProjectFile_flags_eq [of env f w]
  by (auto simp add: mode_flags_def Let_def)

lemma WriteBackupFile_flags_eq:
  "mode_flags (self (snd (WriteBackupFile env w))) =
     (let sets = (str_truthy (projectfile (self w)) \<and> \<not> write_project (self w)
                  \<and> writable_content (subtitles (self w)))
      in (read_project (self w) \<or> sets, write_project (self w) \<or> sets,
          update_project (self w), load_subtitles (self w), preview (self w),
          resume (self w), reparse (self w), retranslate (self w)))"
proof -
  have t: "str_truthy (Some (GetBackupFilepath env pf))" for pf
    by (simp add: str_truthy_def GetBackupFilepath_def)
  have c: "writable_content c \<Longrightarrow> truthy c" for c
    by (cases c) (simp_all add: writable_content_def)
  show ?thesis
    using c [of "subtitles (self w)"] t
    by (auto simp add: WriteBackupFile_def WriteProjectFile_flag_parts str_truthy_def Let_def
        mode_flags_def split: option.splits)
qed

lemma WriteBackupFile_flag_parts:
  "read_project (self (snd (WriteBackupFile env w))) =
     (read_project (self w) \<or> (str_truthy (projectfile (self w)) \<and> \<not> write_project (self w)
                                 \<and> writable_content (subtitles (self w))))"
  "write_project (self (snd (WriteBackupFile env w))) =
     (write_project (self w)
      \<or> (str_truthy (projectfile (self w)) \<and> writable_content (subtitles (self w))))"
  "update_project (self (snd (WriteBackupFile env w))) = update_project (self w)"
  "load_subtitles (self (snd (WriteBackupFile env w))) = load_subtitles (self w)"
  "preview (self (snd (WriteBackupFile env w))) = preview (self w)"
  "resume (self (snd (WriteBackupFile env w))) = resume (self w)"
  "reparse (self (snd (WriteBackupFile env w))) = reparse (self w)"
  "retranslate (self (snd (WriteBackupFile env w))) = retranslate (self w)"
  using WriteBackupFile_flags_eq [of env w]
  by (auto simp add: mode_flags_def Let_def)

lemma WriteProjectFile_None_flags:
  "mode_flags (self (snd (WriteProjectFile env None w))) = mode_flags (self w)"
  by (simp add: WriteProjectFile_flag_parts str_truthy_def mode_flags_def)

lemma ReadProjectFile_flags:
  "mode_flags (self (snd (ReadProjectFile env f w))) = mode_flags (self w)"
  by (simp add: ReadProjectFile_def mode_flags_def split: option.splits sum.splits)

lemma LoadSubtitleFile_flags:
  "mode_flags (self (snd (LoadSubtitleFile env f w))) = mode_flags (self w)"
  by (simp add: LoadSubtitleFile_def mode_flags_def split: sum.splits)

lemma UpdateProjectFile_flags:
  "mode_flags (self (snd (UpdateProjectFile w))) = mode_flags (self w)"
  by (simp add: UpdateProjectFile_def mode_flags_def)

lemma UpdateProjectSettings_flags:
  "mode_flags (self (snd (UpdateProjectSettings env new w))) = mode_flags (self w)"
  by (simp add: UpdateProjectSettings_def Let_def WriteProjectFile_None_flags
      split: content.splits)
     (simp add: mode_flags_def)

lemma TranslateSubtitles_flags:
  "mode_flags (self (snd (snd (TranslateSubtitles env tr b w)))) = mode_flags (self w)"
proof -
  have a: "\<And>r w1. WriteProjectFile env None w = (r, w1) \<Longrightarrow>
             mode_flags (self w1) = mode_flags (self w)"
    using WriteProjectFile_None_flags [of env w] by simp
  show ?thesis
    by (auto simp add: TranslateSubtitles_def Let_def run_signals_flags SaveTranslation_self
        split: prod.splits sum.splits outcome.splits error.splits dest: a)
qed

lemma TranslateScene_flags:
  "mode_flags (self (snd (snd (TranslateScene env tr n b w)))) = mode_flags (self w)"
  by (auto simp add: TranslateScene_def Let_def run_signals_flags SaveTranslation_self
      split: content.splits sum.splits outcome.splits error.splits)

text \<open>
  \<^verbatim>\<open>InitialiseProject\<close>. Reading the project file at the project path gives what
  \<open>load_project_json\<close> says; with a backup requested, the backup write can switch write
  on.
\<close>

lemma ReadProjectFile_at_projectfile:
  assumes "projectfile (self w) = Some pf"
  shows "ReadProjectFile env (Some pf) w =
    (case load_project_json env w pf of
       Inl e \<Rightarrow> (Inl e, w)
     | Inr None \<Rightarrow> (Inr None, w)
     | Inr (Some sf) \<Rightarrow> (Inr (Some sf), w\<lparr>self := (self w)\<lparr>subtitles := SubtitleFile sf\<rparr>\<rparr>))"
  using assms by (simp add: ReadProjectFile_def str_truthy_def)

lemma load_project_json_nonempty:
  "load_project_json env w pf = Inr (Some sf) \<Longrightarrow> pf \<noteq> []"
  by (auto simp add: load_project_json_def)

lemma snd_backup_case:
  "snd (case x of (Inl e, w3) \<Rightarrow> (Inl e, w3) | (Inr u, w3) \<Rightarrow> (Inr True, w3)) = snd x"
  by (cases x) (auto split: sum.splits)

lemma InitialiseProject_read_flags:
  assumes "projectfile (self w) = Some pf"
  shows "mode_flags (self (snd (InitialiseProject_read env b w))) =
    (let p = self w;
         loaded = (case load_project_json env w pf of
                     Inr (Some sf) \<Rightarrow> scenes sf \<noteq> [] | _ \<Rightarrow> False)
     in (read_project p,
         write_project p \<or> (read_project p \<and> loaded \<and> b),
         update_project p,
         (if read_project p
          then (case load_project_json env w pf of
                  Inl e \<Rightarrow> load_subtitles p
                | Inr None \<Rightarrow> True
                | Inr (Some sf) \<Rightarrow> scenes sf = [])
          else load_subtitles p),
         preview p, resume p, reparse p, retranslate p))"
proof (cases "read_project (self w)")
  case False
  then show ?thesis by (simp add: InitialiseProject_read_def mode_flags_def Let_def)
next
  case True
  show ?thesis
  proof (cases "load_project_json env w pf")
    case (Inl e)
    with True assms show ?thesis
      by (simp add: InitialiseProject_read_def ReadProjectFile_at_projectfile mode_flags_def
          Let_def)
  next
    case (Inr r)
    show ?thesis
    proof (cases r)
      case None
      with True assms Inr show ?thesis
        by (simp add: InitialiseProject_read_def ReadProjectFile_at_projectfile mode_flags_def
            Let_def)
    next
      case (Some sf)
      have ne: "pf \<noteq> []" using Inr Some by (auto dest: load_project_json_nonempty)
      show ?thesis
      proof (cases "scenes sf = []")
        case True
        with \<open>read_project (self w)\<close> assms Inr Some show ?thesis
          by (simp add: InitialiseProject_read_def ReadProjectFile_at_projectfile
              mode_flags_def Let_def)
      next
        case False
        with \<open>read_project (self w)\<close> assms Inr Some ne show ?thesis
          by (auto simp add: InitialiseProject_read_def ReadProjectFile_at_projectfile Let_def
              snd_backup_case WriteBackupFile_flag_parts writable_content_def str_truthy_def
              mode_flags_def)
      qed
    qed
  qed
qed

lemma InitialiseProject_finish_flags:
  "mode_flags (self (snd (InitialiseProject_finish f out a w))) = mode_flags (self w)"
  by (simp add: InitialiseProject_finish_def Let_def mode_flags_def split: content.splits)

lemma load_project_json_self: "load_project_json env (w\<lparr>self := p\<rparr>) pf = load_project_json env w pf"
  by (simp add: load_project_json_def)

lemma InitialiseProject_flags:
  "mode_flags (self (snd (InitialiseProject env f out b w))) =
    (let fp = normpath env f;
         pf = GetProjectFilepath env (if fp \<noteq> [] then fp else ''subtitles'');
         p = self w;
         rd = ((read_project p \<or> pf = fp) \<and> path_exists w pf);
         loaded = (case load_project_json env w pf of
                     Inr (Some sf) \<Rightarrow> scenes sf \<noteq> [] | _ \<Rightarrow> False)
     in (rd,
         write_project p \<or> (pf = fp \<and> \<not> read_project p) \<or> (rd \<and> loaded \<and> b),
         update_project p,
         (if rd
          then (case load_project_json env w pf of
                  Inl e \<Rightarrow> load_subtitles p
                | Inr None \<Rightarrow> True
                | Inr (Some sf) \<Rightarrow> scenes sf = [])
          else load_subtitles p \<or> ((read_project p \<or> pf = fp) \<and> \<not> path_exists w pf)),
         preview p, resume p, reparse p, retranslate p))"
proof -
  let ?fp = "normpath env f"
  define pf where "pf = GetProjectFilepath env (if ?fp \<noteq> [] then ?fp else ''subtitles'')"
  define p2 where "p2 = (if pf = ?fp \<and> \<not> read_project (self w)
                then (self w)\<lparr>projectfile := Some pf, read_project := True, write_project := True\<rparr>
                else (self w)\<lparr>projectfile := Some pf\<rparr>)"
  define p3 where "p3 = (if read_project p2 \<and> \<not> path_exists w pf
                then p2\<lparr>read_project := False, load_subtitles := True\<rparr> else p2)"
  define w3 where "w3 = w\<lparr>self := p3\<rparr>"
  have I: "InitialiseProject env f out b w =
     (case InitialiseProject_read env b w3 of
        (Inl e, w4) \<Rightarrow> (Inl e, w4)
      | (Inr assigned, w4) \<Rightarrow>
          if load_subtitles (self w4)
          then (case LoadSubtitleFile env ?fp w4 of
                  (Inl e, w5) \<Rightarrow> (Inl e, w5)
                | (Inr sf, w5) \<Rightarrow> InitialiseProject_finish ?fp out True w5)
          else InitialiseProject_finish ?fp out assigned w4)"
    unfolding InitialiseProject_def Let_def w3_def p3_def p2_def pf_def by simp
  obtain r4 w4 where rd: "InitialiseProject_read env b w3 = (r4, w4)"
    by (cases "InitialiseProject_read env b w3")
  obtain r5 w5 where ld: "LoadSubtitleFile env ?fp w4 = (r5, w5)"
    by (cases "LoadSubtitleFile env ?fp w4")
  have f5: "mode_flags (self w5) = mode_flags (self w4)"
    using LoadSubtitleFile_flags [of env ?fp w4] ld by simp
  have fin: "\<And>a v. mode_flags (self (snd (InitialiseProject_finish ?fp out a v)))
                     = mode_flags (self v)"
    by (rule InitialiseProject_finish_flags)
  have keep: "mode_flags (self (snd (InitialiseProject env f out b w))) = mode_flags (self w4)"
    unfolding I using rd ld f5 by (auto simp add: fin split: sum.splits)
  have pj: "projectfile (self w3) = Some pf"
    by (simp add: w3_def p3_def p2_def)
  have f4: "mode_flags (self w4) =
    (let p = self w3;
         loaded = (case load_project_json env w pf of
                     Inr (Some sf) \<Rightarrow> scenes sf \<noteq> [] | _ \<Rightarrow> False)
     in (read_project p,
         write_project p \<or> (read_project p \<and> loaded \<and> b),
         update_project p,
         (if read_project p
          then (case load_project_json env w pf of
                  Inl e \<Rightarrow> load_subtitles p
                | Inr None \<Rightarrow> True
                | Inr (Some sf) \<Rightarrow> scenes sf = [])
          else load_subtitles p),
         preview p, resume p, reparse p, retranslate p))"
    using InitialiseProject_read_flags [OF pj, of env b] rd
    by (simp add: w3_def load_project_json_self)
  have p3_flags: "read_project p3 = ((read_project (self w) \<or> pf = ?fp) \<and> path_exists w pf)"
    "write_project p3 = (write_project (self w) \<or> (pf = ?fp \<and> \<not> read_project (self w)))"
    "load_subtitles p3 = (load_subtitles (self w)
        \<or> ((read_project (self w) \<or> pf = ?fp) \<and> \<not> path_exists w pf))"
    "update_project p3 = update_project (self w)" "preview p3 = preview (self w)"
    "resume p3 = resume (self w)" "reparse p3 = reparse (self w)"
    "retranslate p3 = retranslate (self w)"
    by (auto simp add: p3_def p2_def)
  show ?thesis
    unfolding keep f4 Let_def pf_def [symmetric]
    by (auto simp add: w3_def p3_flags split: sum.splits option.splits)
qed

text \<open>Paths of the evaluations below, under the POSIX path functions.\<close>

lemma sample_paths:
  "normpath sample_env ''movie.subtrans'' = ''movie.subtrans''"
  "GetProjectFilepath sample_env ''movie.subtrans'' = ''movie.subtrans''"
  "GetBackupFilepath sample_env ''movie.subtrans'' = ''movie.subtrans-backup''"
  "normpath sample_env ''copy.subtrans'' = ''copy.subtrans''"
  by (simp_all add: GetBackupFilepath_def GetProjectFilepath_def sample_env_def
      posix_normpath_def posix_splitext_def rfind_def)

lemma sample_load:
  "load_project_json sample_env
     \<lparr>self = p, files = [''movie.subtrans'' \<mapsto> ProjectJson sample_file], trace = t\<rparr>
     ''movie.subtrans'' = Inr (Some sample_file)"
  by (simp add: load_project_json_def sample_env_def)

text \<open>
  C6 as stated fails for the mode "read". The input path is the project path itself: the
  project file is read, initialisation succeeds, and write is still off.
\<close>

theorem InitialiseProject_read_mode_counterexample:
  "GetProjectFilepath sample_env (normpath sample_env ''movie.subtrans'')
     = normpath sample_env ''movie.subtrans''
   \<and> fst (InitialiseProject sample_env ''movie.subtrans'' None False
        \<lparr>self = SubtitleProject_init
           \<lparr>opt_project = Some ''read'', opt_autosave = False, opt_include_original = False\<rparr>,
         files = [''movie.subtrans'' \<mapsto> ProjectJson sample_file], trace = []\<rparr>) = Inr ()
   \<and> \<not> write_project (self (snd (InitialiseProject sample_env ''movie.subtrans'' None False
        \<lparr>self = SubtitleProject_init
           \<lparr>opt_project = Some ''read'', opt_autosave = False, opt_include_original = False\<rparr>,
         files = [''movie.subtrans'' \<mapsto> ProjectJson sample_file], trace = []\<rparr>)))"
proof -
  have f: "scenes sample_file \<noteq> []" "has_subtitles sample_file" by (simp_all add: sample_file_def)
  show ?thesis
    by (simp add: init_read sample_paths InitialiseProject_def InitialiseProject_read_def
        InitialiseProject_finish_def ReadProjectFile_def sample_load str_truthy_def
        path_exists_def f Let_def)
qed

text \<open>
  C6, as the code has it. If the normalised input path equals the project path derived
  from it, then after \<^verbatim>\<open>InitialiseProject\<close>, whether it returns or raises: read is set
  exactly if the project file exists (line 70 takes read back when the file is missing);
  write is set exactly if read was off when the method was called (lines 63-65 force
  both), or write was on already, or a backup was requested and the project file was
  read with at least one scene (the backup write of line 81 switches write on). So mode
  "read", the only mode with read on and write off, keeps write off unless a backup is
  written.
\<close>

theorem InitialiseProject_forces_read_write:
  assumes "GetProjectFilepath env (if normpath env f \<noteq> [] then normpath env f else ''subtitles'')
           = normpath env f"
  shows "(read_project (self (snd (InitialiseProject env f out b w)))
            \<longleftrightarrow> path_exists w (normpath env f))
         \<and> (write_project (self (snd (InitialiseProject env f out b w)))
            \<longleftrightarrow> (\<not> read_project (self w) \<or> write_project (self w)
                 \<or> (b \<and> (case load_project_json env w (normpath env f) of
                            Inr (Some sf) \<Rightarrow> scenes sf \<noteq> [] | _ \<Rightarrow> False))))"
proof -
  have ex: "path_exists w (normpath env f)"
    if "load_project_json env w (normpath env f) = Inr (Some sf)" for sf
    using that
    by (auto simp add: load_project_json_def path_exists_def split: if_splits option.splits)
  show ?thesis
    using InitialiseProject_flags [of env f out b w] assms ex
    by (auto simp add: mode_flags_def Let_def split: sum.splits option.splits)
qed

theorem InitialiseProject_forces_read_write_witness:
  "GetProjectFilepath sample_env
     (if normpath sample_env ''movie.subtrans'' \<noteq> [] then normpath sample_env ''movie.subtrans''
      else ''subtitles'') = normpath sample_env ''movie.subtrans''
   \<and> \<not> read_project (SubtitleProject_init
           \<lparr>opt_project = Some ''reload'', opt_autosave = False, opt_include_original = False\<rparr>)
   \<and> write_project (self (snd (InitialiseProject sample_env ''movie.subtrans'' None False
        \<lparr>self = SubtitleProject_init
           \<lparr>opt_project = Some ''reload'', opt_autosave = False, opt_include_original = False\<rparr>,
         files = [''movie.subtrans'' \<mapsto> ProjectJson sample_file], trace = []\<rparr>)))
   \<and> read_project (self (snd (InitialiseProject sample_env ''movie.subtrans'' None False
        \<lparr>self = SubtitleProject_init
           \<lparr>opt_project = Some ''reload'', opt_autosave = False, opt_include_original = False\<rparr>,
         files = [''movie.subtrans'' \<mapsto> ProjectJson sample_file], trace = []\<rparr>)))
   \<and> write_project (self (snd (InitialiseProject sample_env ''movie.subtrans'' None True
        \<lparr>self = SubtitleProject_init
           \<lparr>opt_project = Some ''read'', opt_autosave = False, opt_include_original = False\<rparr>,
         files = [''movie.subtrans'' \<mapsto> ProjectJson sample_file], trace = []\<rparr>)))
   \<and> \<not> read_project (self (snd (InitialiseProject sample_env ''movie.subtrans'' None False
        \<lparr>self = SubtitleProject_init
           \<lparr>opt_project = Some ''true'', opt_autosave = False, opt_include_original = False\<rparr>,
         files = Map.empty, trace = []\<rparr>)))"
proof -
  have h1: "GetProjectFilepath sample_env
     (if normpath sample_env ''movie.subtrans'' \<noteq> [] then normpath sample_env ''movie.subtrans''
      else ''subtitles'') = normpath sample_env ''movie.subtrans''"
    by (simp add: sample_paths)
  have h2: "\<not> read_project (SubtitleProject_init
           \<lparr>opt_project = Some ''reload'', opt_autosave = False, opt_include_original = False\<rparr>)"
    by (simp add: SubtitleProject_init_def Let_def py_in_def lower_def lower_char_def)
  have sc: "scenes sample_file \<noteq> []" by (simp add: sample_file_def)
  from InitialiseProject_forces_read_write [OF h1, of None False
         "\<lparr>self = SubtitleProject_init
           \<lparr>opt_project = Some ''reload'', opt_autosave = False, opt_include_original = False\<rparr>,
         files = [''movie.subtrans'' \<mapsto> ProjectJson sample_file], trace = []\<rparr>"]
       InitialiseProject_forces_read_write [OF h1, of None True
         "\<lparr>self = SubtitleProject_init
           \<lparr>opt_project = Some ''read'', opt_autosave = False, opt_include_original = False\<rparr>,
         files = [''movie.subtrans'' \<mapsto> ProjectJson sample_file], trace = []\<rparr>"]
       InitialiseProject_forces_read_write [OF h1, of None False
         "\<lparr>self = SubtitleProject_init
           \<lparr>opt_project = Some ''true'', opt_autosave = False, opt_include_original = False\<rparr>,
         files = Map.empty, trace = []\<rparr>"]
       h1 h2 sc
  show ?thesis by (simp add: sample_paths sample_load path_exists_def)
qed

text \<open>
  C9 as stated fails for \<^verbatim>\<open>WriteProjectFile\<close> with an explicit path. A project is
  constructed with the mode "read" and initialised from its project file, which leaves
  write off; the file is then written to another path, and write has been switched on.
\<close>

theorem WriteProjectFile_sets_flags_counterexample:
  "fst (InitialiseProject sample_env ''movie.subtrans'' None False
        \<lparr>self = SubtitleProject_init
           \<lparr>opt_project = Some ''read'', opt_autosave = False, opt_include_original = False\<rparr>,
         files = [''movie.subtrans'' \<mapsto> ProjectJson sample_file], trace = []\<rparr>) = Inr ()
   \<and> \<not> write_project (self (snd (InitialiseProject sample_env ''movie.subtrans'' None False
        \<lparr>self = SubtitleProject_init
           \<lparr>opt_project = Some ''read'', opt_autosave = False, opt_include_original = False\<rparr>,
         files = [''movie.subtrans'' \<mapsto> ProjectJson sample_file], trace = []\<rparr>)))
   \<and> fst (WriteProjectFile sample_env (Some ''copy.subtrans'')
        (snd (InitialiseProject sample_env ''movie.subtrans'' None False
          \<lparr>self = SubtitleProject_init
             \<lparr>opt_project = Some ''read'', opt_autosave = False, opt_include_original = False\<rparr>,
           files = [''movie.subtrans'' \<mapsto> ProjectJson sample_file], trace = []\<rparr>))) = Inr ()
   \<and> write_project (self (snd (WriteProjectFile sample_env (Some ''copy.subtrans'')
        (snd (InitialiseProject sample_env ''movie.subtrans'' None False
          \<lparr>self = SubtitleProject_init
             \<lparr>opt_project = Some ''read'', opt_autosave = False, opt_include_original = False\<rparr>,
           files = [''movie.subtrans'' \<mapsto> ProjectJson sample_file], trace = []\<rparr>)))))"
proof -
  have f: "scenes sample_file \<noteq> []" "has_subtitles sample_file" by (simp_all add: sample_file_def)
  have o: "open_write sample_env ''copy.subtrans'' = None"
    "write_json sample_env sample_file = None"
    by (simp_all add: sample_env_def)
  show ?thesis
    by (simp add: init_read sample_paths InitialiseProject_def InitialiseProject_read_def
        InitialiseProject_finish_def ReadProjectFile_def sample_load WriteProjectFile_def
        str_truthy_def path_exists_def f o Let_def)
qed

text \<open>
  C9, as the code has it. No operation changes update, preview, resume, reparse or
  retranslate. The operations other than \<^verbatim>\<open>InitialiseProject\<close>, \<^verbatim>\<open>WriteProjectFile\<close> with an
  explicit path and \<^verbatim>\<open>WriteBackupFile\<close> change none of the eight flags. \<^verbatim>\<open>WriteProjectFile\<close>
  sets write and read exactly when it is given a path, write is off and the content
  passes its checks, and changes no flag otherwise; \<^verbatim>\<open>WriteBackupFile\<close> does the same with
  the project path in the place of the given one. \<^verbatim>\<open>InitialiseProject\<close> assigns read, write
  and load-source: read is on afterwards exactly if it was on, or the input is the project
  path, and the project file exists; write exactly if it was on, or the input is the
  project path and read was off, or the project file was read with a scene and a backup
  requested; load-source, where read is on afterwards, exactly if the project file gave no
  content or no scene (and as it was where reading raised), and otherwise if it was on or
  the project file, asked for, is missing.
\<close>

theorem flags_after_construction:
  "fixed_flags (self (run_op env op w)) = fixed_flags (self w)
   \<and> (assigns_no_flag op \<longrightarrow> mode_flags (self (run_op env op w)) = mode_flags (self w))
   \<and> mode_flags (self (run_op env (OpWriteProjectFile f) w)) =
       (let sets = (str_truthy f \<and> \<not> write_project (self w)
                    \<and> writable_content (subtitles (self w)))
        in (read_project (self w) \<or> sets, write_project (self w) \<or> sets,
            update_project (self w), load_subtitles (self w), preview (self w),
            resume (self w), reparse (self w), retranslate (self w)))
   \<and> mode_flags (self (run_op env OpWriteBackupFile w)) =
       (let sets = (str_truthy (projectfile (self w)) \<and> \<not> write_project (self w)
                    \<and> writable_content (subtitles (self w)))
        in (read_project (self w) \<or> sets, write_project (self w) \<or> sets,
            update_project (self w), load_subtitles (self w), preview (self w),
            resume (self w), reparse (self w), retranslate (self w)))
   \<and> mode_flags (self (run_op env (OpInitialiseProject path out b) w)) =
       (let fp = normpath env path;
            pf = GetProjectFilepath env (if fp \<noteq> [] then fp else ''subtitles'');
            p = self w;
            rd = ((read_project p \<or> pf = fp) \<and> path_exists w pf);
            loaded = (case load_project_json env w pf of
                        Inr (Some sf) \<Rightarrow> scenes sf \<noteq> [] | _ \<Rightarrow> False)
        in (rd,
            write_project p \<or> (pf = fp \<and> \<not> read_project p) \<or> (rd \<and> loaded \<and> b),
            update_project p,
            (if rd
             then (case load_project_json env w pf of
                     Inl e \<Rightarrow> load_subtitles p
                   | Inr None \<Rightarrow> True
                   | Inr (Some sf) \<Rightarrow> scenes sf = [])
             else load_subtitles p \<or> ((read_project p \<or> pf = fp) \<and> \<not> path_exists w pf)),
            preview p, resume p, reparse p, retranslate p))"
proof -
  have keep: "mode_flags (self (run_op env op w)) = mode_flags (self w)"
    if "assigns_no_flag op"
  proof (cases op)
    case (OpInitialiseProject f out b)
    with that show ?thesis by simp
  next
    case (OpSaveTranslation out)
    then show ?thesis by (simp add: SaveTranslation_self)
  next
    case (OpLoadSubtitleFile f)
    then show ?thesis by (simp add: LoadSubtitleFile_flags)
  next
    case (OpWriteProjectFile g)
    with that show ?thesis
      by (simp add: WriteProjectFile_flag_parts mode_flags_def)
  next
    case OpWriteBackupFile
    with that show ?thesis by simp
  next
    case (OpReadProjectFile f)
    then show ?thesis by (simp add: ReadProjectFile_flags)
  next
    case OpUpdateProjectFile
    then show ?thesis by (simp add: UpdateProjectFile_flags)
  next
    case (OpUpdateProjectSettings d)
    then show ?thesis by (simp add: UpdateProjectSettings_flags)
  next
    case (OpTranslateSubtitles tr b)
    then show ?thesis by (simp add: TranslateSubtitles_flags)
  next
    case (OpTranslateScene tr n b)
    then show ?thesis by (simp add: TranslateScene_flags)
  qed
  have fixed: "fixed_flags (self (run_op env op w)) = fixed_flags (self w)"
  proof (cases "assigns_no_flag op")
    case True
    then show ?thesis by (rule keep [THEN mode_flags_fixed])
  next
    case False
    then show ?thesis
    proof (cases op)
      case (OpInitialiseProject f out b)
      then show ?thesis
        using InitialiseProject_flags [of env f out b w]
        by (simp add: mode_flags_def fixed_flags_def Let_def)
    next
      case (OpWriteProjectFile g)
      then show ?thesis by (simp add: WriteProjectFile_flag_parts fixed_flags_def)
    next
      case OpWriteBackupFile
      then show ?thesis by (simp add: WriteBackupFile_flag_parts fixed_flags_def)
    qed simp_all
  qed
  show ?thesis
    using fixed keep WriteProjectFile_flags_eq [of env f w] WriteBackupFile_flags_eq [of env w]
      InitialiseProject_flags [of env path out b w]
    by simp
qed

theorem flags_after_construction_witness:
  "assigns_no_flag (OpWriteProjectFile None)
   \<and> fixed_flags (self (run_op sample_env (OpWriteProjectFile None)
        (new_world (sample_project ''read'')))) = (False, False, False, False, False)
   \<and> mode_flags (self (run_op sample_env (OpWriteProjectFile None)
        (new_world (sample_project ''read''))))
      = (True, False, False, False, False, False, False, False)
   \<and> mode_flags (self (run_op sample_env (OpWriteProjectFile (Some ''copy.subtrans''))
        (new_world (sample_project ''read''))))
      = (True, True, False, False, False, False, False, False)
   \<and> mode_flags (self (run_op sample_env OpWriteBackupFile
        (new_world (sample_project ''read''))))
      = (True, True, False, False, False, False, False, False)"
  using flags_after_construction
          [of sample_env "OpWriteProjectFile None" "new_world (sample_project ''read'')"
              "Some ''copy.subtrans''" "''movie.subtrans''" None False]
  by (simp add: str_truthy_def new_world_def sample_project_read mode_flags_def fixed_flags_def
      writable_content_def sample_file_def Let_def)

end
